theory Spec2Isabelle
  imports Main "HOL-Library.Word" "HOL-Library.Signed_Division"
begin

unbundle bit_operations_syntax

section \<open>Data model of handler.c\<close>

text \<open>
  The handlers of \<^verbatim>\<open>handler.c\<close> read X events, query the X server, and call into the
  client registry, the layout engine and the focus code. Window handles and atoms are
  32-bit protocol identifiers.
\<close>

type_synonym xcb_window_t = "32 word"
type_synonym xcb_atom_t = "32 word"

text \<open>
  \<^verbatim>\<open>xcb_rectangle_t\<close> of the X protocol: \<^verbatim>\<open>int16_t x, y; uint16_t width, height\<close>.
  The signed fields are read with \<^const>\<open>sint\<close>, the unsigned ones with \<^const>\<open>uint\<close>.
\<close>

record xcb_rectangle_t =
  rect_x :: "16 word"
  rect_y :: "16 word"
  rect_width :: "16 word"
  rect_height :: "16 word"

text \<open>
  Modelled from the spec: the Client record (declared in \<^verbatim>\<open>types.h\<close>, which is not part
  of the handler source) with the fields the handlers read and write: the window handle,
  the floating flag, the transient flag and the geometry rectangle.
\<close>

record client_t =
  win :: xcb_window_t
  is_floating :: bool
  is_transient :: bool
  rect :: xcb_rectangle_t

text \<open>
  Modelled from the spec: the layout mode of a workspace (tiled, zoomed, floating-only).
  The handlers only compare it with \<^verbatim>\<open>ZOOM\<close>.
\<close>

datatype layout_t = ZOOM | TILED | FLOATING_ONLY

text \<open>
  Modelled from the spec: the workspace, the monitor and the configuration (declared in
  \<^verbatim>\<open>types.h\<close>, \<^verbatim>\<open>monitor.h\<close> and \<^verbatim>\<open>howm.h\<close>), with the fields the handlers read.
  Pixel sizes are 16-bit unsigned quantities like the fields of \<^verbatim>\<open>xcb_rectangle_t\<close>
  they are combined with, so C's integer promotion makes the arithmetic on them exact
  arithmetic on \<^typ>\<open>int\<close>. \<^verbatim>\<open>mon->ws\<close> is the active workspace of the monitor.
\<close>

record workspace_t =
  bar_height :: "16 word"
  layout :: layout_t

record monitor_t =
  mon_rect :: xcb_rectangle_t
  ws :: workspace_t
  workspace_cnt :: "32 word"

record config =
  focus_mouse :: bool
  focus_mouse_click :: bool
  center_floating :: bool
  bar_bottom :: bool
  border_px :: "16 word"
  float_spawn_width :: "16 word"
  float_spawn_height :: "16 word"

text \<open>The atoms of the \<^verbatim>\<open>ewmh\<close> connection that the handlers compare against.\<close>

record ewmh_atoms =
  NET_WM_WINDOW_TYPE_DOCK :: xcb_atom_t
  NET_WM_WINDOW_TYPE_TOOLBAR :: xcb_atom_t
  NET_WM_WINDOW_TYPE_NOTIFICATION :: xcb_atom_t
  NET_WM_WINDOW_TYPE_DROPDOWN_MENU :: xcb_atom_t
  NET_WM_WINDOW_TYPE_SPLASH :: xcb_atom_t
  NET_WM_WINDOW_TYPE_POPUP_MENU :: xcb_atom_t
  NET_WM_WINDOW_TYPE_TOOLTIP :: xcb_atom_t
  NET_WM_WINDOW_TYPE_DIALOG :: xcb_atom_t
  NET_WM_STATE :: xcb_atom_t
  NET_CLOSE_WINDOW :: xcb_atom_t
  NET_ACTIVE_WINDOW :: xcb_atom_t
  NET_CURRENT_DESKTOP :: xcb_atom_t

subsection \<open>Events\<close>

text \<open>
  The event structures of \<^verbatim>\<open>xcb/xproto.h\<close>, each with the fields its handler reads.
\<close>

record xcb_button_press_event_t =
  be_detail :: "8 word"
  be_time :: "32 word"
  be_event :: xcb_window_t
  be_event_x :: "16 word"
  be_event_y :: "16 word"

record xcb_map_request_event_t =
  me_window :: xcb_window_t

record xcb_destroy_notify_event_t =
  de_window :: xcb_window_t

record xcb_enter_notify_event_t =
  ee_event :: xcb_window_t
  ee_root_x :: "16 word"
  ee_root_y :: "16 word"

record xcb_configure_request_event_t =
  ce_stack_mode :: "8 word"
  ce_window :: xcb_window_t
  ce_sibling :: xcb_window_t
  ce_x :: "16 word"
  ce_y :: "16 word"
  ce_width :: "16 word"
  ce_height :: "16 word"
  ce_border_width :: "16 word"
  ce_value_mask :: "16 word"

record xcb_unmap_notify_event_t =
  ue_event :: xcb_window_t
  ue_window :: xcb_window_t

text \<open>
  \<^verbatim>\<open>data.data32\<close> has five words; the handler reads the first three.
\<close>

record xcb_client_message_event_t =
  cm_window :: xcb_window_t
  cm_type :: xcb_atom_t
  cm_data32_0 :: "32 word"
  cm_data32_1 :: "32 word"
  cm_data32_2 :: "32 word"

text \<open>
  Every handler receives an \<^verbatim>\<open>xcb_generic_event_t *\<close> and casts it to its own event
  structure. The generic event is its \<^verbatim>\<open>response_type\<close> together with what each cast
  reads from the same bytes.
\<close>

record xcb_generic_event_t =
  response_type :: "8 word"
  as_button_press :: xcb_button_press_event_t
  as_map_request :: xcb_map_request_event_t
  as_destroy_notify :: xcb_destroy_notify_event_t
  as_enter_notify :: xcb_enter_notify_event_t
  as_configure_request :: xcb_configure_request_event_t
  as_unmap_notify :: xcb_unmap_notify_event_t
  as_client_message :: xcb_client_message_event_t

subsection \<open>Replies of the X server\<close>

record xcb_get_window_attributes_reply_t =
  override_redirect :: "8 word"

record xcb_get_geometry_reply_t =
  geom_x :: "16 word"
  geom_y :: "16 word"
  geom_width :: "16 word"
  geom_height :: "16 word"

text \<open>
  What surrounds a handler while it runs: the configuration \<^verbatim>\<open>conf\<close>, the atoms, the
  root window of the screen, and the answers of the X server to the four queries of
  \<^verbatim>\<open>map_event\<close> (\<open>None\<close> is a failed query: a null reply, or a return value other
  than 1). \<^verbatim>\<open>point_to_monitor\<close> and \<^verbatim>\<open>index_to_workspace\<close> are functions of
  \<^verbatim>\<open>monitor.c\<close> and \<^verbatim>\<open>workspace.c\<close>, taken as parameters.
\<close>

record env =
  conf :: config
  ewmh :: ewmh_atoms
  screen_root :: xcb_window_t
  get_window_attributes :: "xcb_window_t \<Rightarrow> xcb_get_window_attributes_reply_t option"
  get_wm_window_type :: "xcb_window_t \<Rightarrow> xcb_atom_t list option"
  get_wm_transient_for :: "xcb_window_t \<Rightarrow> xcb_window_t option"
  get_geometry :: "xcb_window_t \<Rightarrow> xcb_get_geometry_reply_t option"
  point_to_monitor :: "16 word \<times> 16 word \<Rightarrow> monitor_t"
  index_to_workspace :: "monitor_t \<Rightarrow> 32 word \<Rightarrow> workspace_t"

subsection \<open>State and effects\<close>

text \<open>
  The calls a handler makes to the protocol connection and to the other modules, in the
  order it makes them. A client pointer is recorded as the window handle of the client.
\<close>

datatype action =
    Focus_window xcb_window_t
  | Xcb_allow_events "8 word" "32 word"
  | Xcb_flush
  | Create_client xcb_window_t
  | Xcb_map_window xcb_window_t
  | Remove_client xcb_window_t bool
  | Arrange_windows
  | Update_focused_client "xcb_window_t option"
  | Grab_buttons xcb_window_t
  | Focus_monitor monitor_t
  | Xcb_configure_window xcb_window_t "16 word" "32 word list"
  | Howm_info
  | Ewmh_process_wm_state xcb_window_t xcb_atom_t "32 word"
  | Index_to_workspace "32 word"
  | Change_ws workspace_t

datatype log_entry = Info string | Debug string

text \<open>
  The global state: the registry of managed clients, the focused monitor \<^verbatim>\<open>mon\<close>, the
  calls made so far and the log.
\<close>

record state =
  clients :: "client_t list"
  mon :: monitor_t
  trace :: "action list"
  logs :: "log_entry list"

definition emit :: "action \<Rightarrow> state \<Rightarrow> state" where
  "emit a s = s\<lparr>trace := trace s @ [a]\<rparr>"

definition log_info :: "string \<Rightarrow> state \<Rightarrow> state" where
  "log_info msg s = s\<lparr>logs := logs s @ [Info msg]\<rparr>"

definition log_debug :: "string \<Rightarrow> state \<Rightarrow> state" where
  "log_debug msg s = s\<lparr>logs := logs s @ [Debug msg]\<rparr>"


section \<open>Collaborators\<close>

text \<open>
  Modelled from the spec: the client registry (\<^verbatim>\<open>client.c\<close>, not part of the handler
  source) with its three operations \<open>find(window_handle) -> Client?\<close>,
  \<open>create(window_handle) -> Client\<close> and \<open>remove(Client, forced: bool)\<close>. A created
  Client is bound to the window handle, is neither floating nor transient and has the
  default (all-zero) geometry; it is inserted at the end of the client list. Removal takes
  the Client out of the registry. Each call is recorded in the trace.
\<close>

definition find_client_by_win :: "state \<Rightarrow> xcb_window_t \<Rightarrow> client_t option" where
  "find_client_by_win s w = List.find (\<lambda>c. win c = w) (clients s)"

definition new_client :: "xcb_window_t \<Rightarrow> client_t" where
  "new_client w =
     \<lparr>win = w, is_floating = False, is_transient = False,
      rect = \<lparr>rect_x = 0, rect_y = 0, rect_width = 0, rect_height = 0\<rparr>\<rparr>"

definition create_client :: "xcb_window_t \<Rightarrow> state \<Rightarrow> state" where
  "create_client w s = emit (Create_client w) (s\<lparr>clients := clients s @ [new_client w]\<rparr>)"

definition remove_client :: "client_t \<Rightarrow> bool \<Rightarrow> state \<Rightarrow> state" where
  "remove_client c forced s =
     emit (Remove_client (win c) forced)
       (s\<lparr>clients := filter (\<lambda>d. win d \<noteq> win c) (clients s)\<rparr>)"

text \<open>
  A write through the client pointer \<^verbatim>\<open>c\<close>: the record of that window in the registry
  takes the new field values.
\<close>

definition store_client :: "client_t \<Rightarrow> state \<Rightarrow> state" where
  "store_client c s = s\<lparr>clients := map (\<lambda>d. if win d = win c then c else d) (clients s)\<rparr>"

text \<open>
  Modelled from the spec: \<^verbatim>\<open>focus_monitor\<close> makes its argument the focused monitor and
  \<^verbatim>\<open>change_ws\<close> switches the focused monitor to the given workspace. The layout
  engine, the focus code, the status output and the protocol requests are outside the
  handler source: their calls are recorded in the trace, with their arguments.
\<close>

definition focus_monitor :: "monitor_t \<Rightarrow> state \<Rightarrow> state" where
  "focus_monitor m s = emit (Focus_monitor m) (s\<lparr>mon := m\<rparr>)"

definition change_ws :: "workspace_t \<Rightarrow> state \<Rightarrow> state" where
  "change_ws w s = emit (Change_ws w) (s\<lparr>mon := (mon s)\<lparr>ws := w\<rparr>\<rparr>)"

definition arrange_windows :: "state \<Rightarrow> state" where
  "arrange_windows = emit Arrange_windows"

definition howm_info :: "state \<Rightarrow> state" where
  "howm_info = emit Howm_info"

definition focus_window :: "xcb_window_t \<Rightarrow> state \<Rightarrow> state" where
  "focus_window w = emit (Focus_window w)"

definition update_focused_client :: "client_t option \<Rightarrow> state \<Rightarrow> state" where
  "update_focused_client c = emit (Update_focused_client (map_option win c))"

definition grab_buttons :: "client_t \<Rightarrow> state \<Rightarrow> state" where
  "grab_buttons c = emit (Grab_buttons (win c))"

definition ewmh_process_wm_state :: "client_t \<Rightarrow> xcb_atom_t \<Rightarrow> 32 word \<Rightarrow> state \<Rightarrow> state" where
  "ewmh_process_wm_state c a act = emit (Ewmh_process_wm_state (win c) a act)"

definition xcb_map_window :: "xcb_window_t \<Rightarrow> state \<Rightarrow> state" where
  "xcb_map_window w = emit (Xcb_map_window w)"

section \<open>Protocol constants of xcb/xproto.h\<close>

definition XCB_BUTTON_PRESS :: "8 word" where "XCB_BUTTON_PRESS = 4"
definition XCB_ENTER_NOTIFY :: "8 word" where "XCB_ENTER_NOTIFY = 7"
definition XCB_DESTROY_NOTIFY :: "8 word" where "XCB_DESTROY_NOTIFY = 17"
definition XCB_UNMAP_NOTIFY :: "8 word" where "XCB_UNMAP_NOTIFY = 18"
definition XCB_MAP_REQUEST :: "8 word" where "XCB_MAP_REQUEST = 20"
definition XCB_CONFIGURE_NOTIFY :: "8 word" where "XCB_CONFIGURE_NOTIFY = 22"
definition XCB_CONFIGURE_REQUEST :: "8 word" where "XCB_CONFIGURE_REQUEST = 23"
definition XCB_CLIENT_MESSAGE :: "8 word" where "XCB_CLIENT_MESSAGE = 33"

definition XCB_BUTTON_INDEX_1 :: "8 word" where "XCB_BUTTON_INDEX_1 = 1"
definition XCB_ALLOW_REPLAY_POINTER :: "8 word" where "XCB_ALLOW_REPLAY_POINTER = 2"

definition XCB_CONFIG_WINDOW_X :: "16 word" where "XCB_CONFIG_WINDOW_X = 1"
definition XCB_CONFIG_WINDOW_Y :: "16 word" where "XCB_CONFIG_WINDOW_Y = 2"
definition XCB_CONFIG_WINDOW_WIDTH :: "16 word" where "XCB_CONFIG_WINDOW_WIDTH = 4"
definition XCB_CONFIG_WINDOW_HEIGHT :: "16 word" where "XCB_CONFIG_WINDOW_HEIGHT = 8"
definition XCB_CONFIG_WINDOW_BORDER_WIDTH :: "16 word" where "XCB_CONFIG_WINDOW_BORDER_WIDTH = 16"
definition XCB_CONFIG_WINDOW_SIBLING :: "16 word" where "XCB_CONFIG_WINDOW_SIBLING = 32"
definition XCB_CONFIG_WINDOW_STACK_MODE :: "16 word" where "XCB_CONFIG_WINDOW_STACK_MODE = 64"

section \<open>The handlers\<close>

subsection \<open>button_press_event\<close>

definition button_press_event :: "env \<Rightarrow> xcb_button_press_event_t \<Rightarrow> state \<Rightarrow> state" where
  "button_press_event E be s =
     (let s1 = log_info ''Button %d pressed at (%d, %d)'' s;
          s2 = (if focus_mouse_click (conf E) \<and> be_detail be = XCB_BUTTON_INDEX_1
                then focus_window (be_event be) s1 else s1)
      in if focus_mouse_click (conf E)
         then emit Xcb_flush (emit (Xcb_allow_events XCB_ALLOW_REPLAY_POINTER (be_time be)) s2)
         else s2)"

subsection \<open>map_event\<close>

text \<open>
  The two tests on a window-type atom (lines 95 to 96 and lines 100 to 105).
\<close>

definition is_dock_type :: "ewmh_atoms \<Rightarrow> xcb_atom_t \<Rightarrow> bool" where
  "is_dock_type e a = (a = NET_WM_WINDOW_TYPE_DOCK e \<or> a = NET_WM_WINDOW_TYPE_TOOLBAR e)"

definition is_floating_type :: "ewmh_atoms \<Rightarrow> xcb_atom_t \<Rightarrow> bool" where
  "is_floating_type e a =
     (a = NET_WM_WINDOW_TYPE_NOTIFICATION e
      \<or> a = NET_WM_WINDOW_TYPE_DROPDOWN_MENU e
      \<or> a = NET_WM_WINDOW_TYPE_SPLASH e
      \<or> a = NET_WM_WINDOW_TYPE_POPUP_MENU e
      \<or> a = NET_WM_WINDOW_TYPE_TOOLTIP e
      \<or> a = NET_WM_WINDOW_TYPE_DIALOG e)"

text \<open>
  The loop over the window-type atoms (lines 92 to 108). The result says whether the
  handler returned from inside the loop, and gives the client and the state at that point.
\<close>

fun scan_window_types ::
  "ewmh_atoms \<Rightarrow> xcb_atom_t list \<Rightarrow> client_t \<Rightarrow> state \<Rightarrow> bool \<times> client_t \<times> state" where
  "scan_window_types e [] c s = (False, c, s)"
| "scan_window_types e (a # as) c s =
     (if is_dock_type e a
      then (True, c, remove_client c False (xcb_map_window (win c) s))
      else if is_floating_type e a
      then scan_window_types e as (c\<lparr>is_floating := True\<rparr>)
             (store_client (c\<lparr>is_floating := True\<rparr>) s)
      else scan_window_types e as c s)"

text \<open>
  Lines 111 to 115. \<^verbatim>\<open>transient\<close> starts as 0 and a failed query leaves it so.
\<close>

definition map_transient :: "env \<Rightarrow> xcb_window_t \<Rightarrow> client_t \<times> state \<Rightarrow> client_t \<times> state" where
  "map_transient E w cs =
     (let c = fst cs; s = snd cs;
          transient = (case get_wm_transient_for E w of Some t \<Rightarrow> t | None \<Rightarrow> 0);
          c1 = c\<lparr>is_transient := (transient \<noteq> 0)\<rparr>;
          c2 = (if is_transient c1 then c1\<lparr>is_floating := True\<rparr> else c1)
      in (c2, store_client c2 s))"

text \<open>
  Lines 117 to 127. The operands are promoted to \<^verbatim>\<open>int\<close>, \<^verbatim>\<open>/\<close> truncates towards
  zero (\<^const>\<open>signed_divide\<close>), and the assignment to the 16-bit fields of the rectangle
  keeps the low 16 bits.
\<close>

definition map_geometry :: "env \<Rightarrow> xcb_window_t \<Rightarrow> client_t \<times> state \<Rightarrow> client_t \<times> state" where
  "map_geometry E w cs =
     (let c = fst cs; s = snd cs in
      case get_geometry E w of
        None \<Rightarrow> (c, s)
      | Some geom \<Rightarrow>
          let s1 = log_info ''Mapped client's initial geom is %ux%u+%d+%d'' s in
          if is_floating c then
            let wd = (if 1 < uint (geom_width geom) then geom_width geom
                      else float_spawn_width (conf E));
                ht = (if 1 < uint (geom_height geom) then geom_height geom
                      else float_spawn_height (conf E));
                px = (if center_floating (conf E)
                      then (uint (rect_width (mon_rect (mon s1))) sdiv 2) - (uint wd sdiv 2)
                      else sint (geom_x geom));
                py = (if center_floating (conf E)
                      then (uint (rect_height (mon_rect (mon s1)))
                              - uint (bar_height (ws (mon s1))) - uint ht) sdiv 2
                      else sint (geom_y geom));
                c1 = c\<lparr>rect := \<lparr>rect_x = word_of_int px, rect_y = word_of_int py,
                                 rect_width = wd, rect_height = ht\<rparr>\<rparr>
            in (c1, store_client c1 s1)
          else (c, s1))"

text \<open>Lines 129 to 132.\<close>

definition map_finish :: "client_t \<times> state \<Rightarrow> state" where
  "map_finish cs =
     grab_buttons (fst cs)
       (update_focused_client (Some (fst cs))
         (xcb_map_window (win (fst cs)) (arrange_windows (snd cs))))"

definition map_event :: "env \<Rightarrow> xcb_map_request_event_t \<Rightarrow> state \<Rightarrow> state" where
  "map_event E me s =
     (case get_window_attributes E (me_window me) of
        None \<Rightarrow> s
      | Some wa \<Rightarrow>
          if override_redirect wa \<noteq> 0 \<or> find_client_by_win s (me_window me) \<noteq> None then s
          else
            let s1 = log_info ''Mapping request for window <0x%x>'' s;
                c = new_client (me_window me);
                s2 = create_client (me_window me) s1;
                r = (case get_wm_window_type E (me_window me) of
                       Some atoms \<Rightarrow> scan_window_types (ewmh E) atoms c s2
                     | None \<Rightarrow> (False, c, s2))
            in if fst r then snd (snd r)
               else map_finish
                      (map_geometry E (me_window me)
                        (map_transient E (me_window me) (snd r))))"

subsection \<open>destroy_event\<close>

definition destroy_event :: "env \<Rightarrow> xcb_destroy_notify_event_t \<Rightarrow> state \<Rightarrow> state" where
  "destroy_event E de s =
     (case find_client_by_win s (de_window de) of
        None \<Rightarrow> s
      | Some c \<Rightarrow>
          arrange_windows (remove_client c True (log_info ''Client <%p> wants to be destroyed'' s)))"

subsection \<open>enter_event\<close>

definition enter_event :: "env \<Rightarrow> xcb_enter_notify_event_t \<Rightarrow> state \<Rightarrow> state" where
  "enter_event E ee s =
     (let point = (ee_root_x ee, ee_root_y ee);
          s1 = log_debug ''Enter event for window <0x%x>'' s;
          s2 = focus_monitor (point_to_monitor E point) s1
      in if focus_mouse (conf E) \<and> layout (ws (mon s2)) \<noteq> ZOOM
         then focus_window (ee_event ee) s2 else s2)"


subsection \<open>configure_event\<close>

text \<open>
  \<^verbatim>\<open>uint32_t vals[7] = {0}, i = 0;\<close> and \<^verbatim>\<open>vals[i++] = v\<close>: the array and the
  index are threaded together. Each value is computed in \<^verbatim>\<open>int\<close> and converted to
  \<^verbatim>\<open>uint32_t\<close> by the assignment.
\<close>

definition put :: "int \<Rightarrow> 32 word list \<times> nat \<Rightarrow> 32 word list \<times> nat" where
  "put v p = ((fst p)[snd p := word_of_int v], snd p + 1)"

definition configure_event :: "env \<Rightarrow> xcb_configure_request_event_t \<Rightarrow> state \<Rightarrow> state" where
  "configure_event E ce s =
     (let s0 = log_info ''Received configure request for window <0x%x>'' s;
          m = ce_value_mask ce;
          wlim = uint (rect_width (mon_rect (mon s0))) - uint (border_px (conf E));
          hlim = uint (rect_height (mon_rect (mon s0))) - uint (border_px (conf E));
          p0 = (replicate 7 0, 0);
          p1 = (if XCB_CONFIG_WINDOW_X AND m \<noteq> 0 then put (sint (ce_x ce)) p0 else p0);
          p2 = (if XCB_CONFIG_WINDOW_Y AND m \<noteq> 0
                then put (sint (ce_y ce)
                          + (if bar_bottom (conf E) then 0 else uint (bar_height (ws (mon s0))))) p1
                else p1);
          p3 = (if XCB_CONFIG_WINDOW_WIDTH AND m \<noteq> 0
                then put (if uint (ce_width ce) < wlim then uint (ce_width ce) else wlim) p2
                else p2);
          p4 = (if XCB_CONFIG_WINDOW_HEIGHT AND m \<noteq> 0
                then put (if uint (ce_height ce) < hlim then uint (ce_height ce) else hlim) p3
                else p3);
          p5 = (if XCB_CONFIG_WINDOW_BORDER_WIDTH AND m \<noteq> 0
                then put (uint (ce_border_width ce)) p4 else p4);
          p6 = (if XCB_CONFIG_WINDOW_SIBLING AND m \<noteq> 0
                then put (uint (ce_sibling ce)) p5 else p5);
          p7 = (if XCB_CONFIG_WINDOW_STACK_MODE AND m \<noteq> 0
                then put (uint (ce_stack_mode ce)) p6 else p6)
      in arrange_windows (emit (Xcb_configure_window (ce_window ce) m (fst p7)) s0))"

subsection \<open>unmap_event\<close>

definition unmap_event :: "env \<Rightarrow> xcb_unmap_notify_event_t \<Rightarrow> state \<Rightarrow> state" where
  "unmap_event E ue s =
     (case find_client_by_win s (ue_window ue) of
        None \<Rightarrow> s
      | Some c \<Rightarrow>
          let s1 = log_info ''Received unmap request for client <%p>'' s;
              s2 = (if ue_event ue \<noteq> screen_root E
                    then arrange_windows (remove_client c True s1) else s1)
          in howm_info s2)"

subsection \<open>client_message_event\<close>

text \<open>
  Every branch of the \<^verbatim>\<open>if\<close> chain but the last tests \<^verbatim>\<open>c\<close> first, so a null
  \<^verbatim>\<open>c\<close> falls through to the final \<^verbatim>\<open>else\<close>.
\<close>

definition client_message_event :: "env \<Rightarrow> xcb_client_message_event_t \<Rightarrow> state \<Rightarrow> state" where
  "client_message_event E cm s =
     (case find_client_by_win s (cm_window cm) of
        None \<Rightarrow> log_debug ''Unhandled client message: %d'' s
      | Some c \<Rightarrow>
          if cm_type cm = NET_WM_STATE (ewmh E) then
            let s1 = ewmh_process_wm_state c (cm_data32_1 cm) (cm_data32_0 cm) s
            in if cm_data32_2 cm \<noteq> 0
               then ewmh_process_wm_state c (cm_data32_2 cm) (cm_data32_0 cm) s1 else s1
          else if cm_type cm = NET_CLOSE_WINDOW (ewmh E) then
            arrange_windows
              (remove_client c True (log_info ''_NET_CLOSE_WINDOW: Removing client <%p>'' s))
          else if cm_type cm = NET_ACTIVE_WINDOW (ewmh E) then
            let s1 = log_info ''_NET_ACTIVE_WINDOW: Focusing client <%p>'' s
            in update_focused_client (find_client_by_win s1 (cm_window cm)) s1
          else if cm_type cm = NET_CURRENT_DESKTOP (ewmh E)
                  \<and> cm_data32_0 cm < workspace_cnt (mon s) then
            let s1 = log_info ''_NET_CURRENT_DESKTOP: Changing to workspace <%d>'' s;
                s2 = emit (Index_to_workspace (cm_data32_0 cm)) s1
            in change_ws (index_to_workspace E (mon s2) (cm_data32_0 cm)) s2
          else log_debug ''Unhandled client message: %d'' s)"

subsection \<open>handle_event\<close>

definition unhandled_event :: "xcb_generic_event_t \<Rightarrow> state \<Rightarrow> state" where
  "unhandled_event ev s = log_debug ''Unhandled event: %d'' s"

text \<open>
  The \<^verbatim>\<open>switch\<close> on \<^verbatim>\<open>ev->response_type & ~0x80\<close>; the case labels are distinct
  constants, so the chain of tests below takes the same branch.
\<close>

definition handle_event :: "env \<Rightarrow> xcb_generic_event_t \<Rightarrow> state \<Rightarrow> state" where
  "handle_event E ev s =
     (let k = response_type ev AND NOT 0x80 in
      if k = XCB_BUTTON_PRESS then button_press_event E (as_button_press ev) s
      else if k = XCB_MAP_REQUEST then map_event E (as_map_request ev) s
      else if k = XCB_DESTROY_NOTIFY then destroy_event E (as_destroy_notify ev) s
      else if k = XCB_ENTER_NOTIFY then enter_event E (as_enter_notify ev) s
      else if k = XCB_CONFIGURE_NOTIFY then configure_event E (as_configure_request ev) s
      else if k = XCB_UNMAP_NOTIFY then unmap_event E (as_unmap_notify ev) s
      else if k = XCB_CLIENT_MESSAGE then client_message_event E (as_client_message ev) s
      else unhandled_event ev s)"

section \<open>Notions used to state the properties\<close>

text \<open>
  Step 1 of \<^verbatim>\<open>map_event\<close> lets a request through when the attribute query answers,
  the window is not override-redirect and the window is not managed yet. The other three
  notions read the answers to the window-type and transient-for queries: whether some
  atom of the reply is DOCK or TOOLBAR, whether some atom is one of the six floating types,
  and the transient-for target (0 when the query fails).
\<close>

definition passes_guard :: "env \<Rightarrow> xcb_window_t \<Rightarrow> state \<Rightarrow> bool" where
  "passes_guard E w s =
     (case get_window_attributes E w of
        None \<Rightarrow> False
      | Some wa \<Rightarrow> override_redirect wa = 0 \<and> find_client_by_win s w = None)"

definition dock_hit :: "env \<Rightarrow> xcb_window_t \<Rightarrow> bool" where
  "dock_hit E w =
     (case get_wm_window_type E w of
        None \<Rightarrow> False
      | Some atoms \<Rightarrow> list_ex (is_dock_type (ewmh E)) atoms)"

definition floating_hit :: "env \<Rightarrow> xcb_window_t \<Rightarrow> bool" where
  "floating_hit E w =
     (case get_wm_window_type E w of
        None \<Rightarrow> False
      | Some atoms \<Rightarrow> list_ex (is_floating_type (ewmh E)) atoms)"

definition transient_target :: "env \<Rightarrow> xcb_window_t \<Rightarrow> xcb_window_t" where
  "transient_target E w = (case get_wm_transient_for E w of Some t \<Rightarrow> t | None \<Rightarrow> 0)"

text \<open>
  The geometry of a floating client as the specification words it: a reported dimension
  of at most 1 is replaced by the configured spawn dimension, and with centering
  \<open>x = mon.width/2 - rect.width/2\<close> and \<open>y = (mon.height - bar_height - rect.height)/2\<close>
  with truncating division, stored in the 16-bit fields of the rectangle.
\<close>

definition floating_spawn_rect :: "env \<Rightarrow> monitor_t \<Rightarrow> xcb_get_geometry_reply_t \<Rightarrow> xcb_rectangle_t" where
  "floating_spawn_rect E m geom =
     (let wd = (if 1 < uint (geom_width geom) then geom_width geom
                else float_spawn_width (conf E));
          ht = (if 1 < uint (geom_height geom) then geom_height geom
                else float_spawn_height (conf E))
      in \<lparr>rect_x = (if center_floating (conf E)
                    then word_of_int (uint (rect_width (mon_rect m)) div 2 - uint wd div 2)
                    else geom_x geom),
          rect_y = (if center_floating (conf E)
                    then word_of_int ((uint (rect_height (mon_rect m))
                                        - uint (bar_height (ws m)) - uint ht) sdiv 2)
                    else geom_y geom),
          rect_width = wd, rect_height = ht\<rparr>)"

text \<open>The invariant of the registry: a transient client is floating.\<close>

definition transient_floating_inv :: "state \<Rightarrow> bool" where
  "transient_floating_inv s = list_all (\<lambda>c. is_transient c \<longrightarrow> is_floating c) (clients s)"

text \<open>
  The calls made between two states, and the calls that index the workspace list or change
  the workspace.
\<close>

definition new_actions :: "state \<Rightarrow> state \<Rightarrow> action list" where
  "new_actions s s' = drop (length (trace s)) (trace s')"

fun is_workspace_action :: "action \<Rightarrow> bool" where
  "is_workspace_action (Index_to_workspace i) = True"
| "is_workspace_action (Change_ws w) = True"
| "is_workspace_action a = False"

text \<open>
  The value list of a configure request as the specification words it: only the fields
  whose mask bit is set, in the order x, y, width, height, border-width, sibling,
  stack-mode; y offset by the bar height unless the bar is at the bottom; width and height
  the minimum of the request and the monitor dimension minus \<open>border_px\<close>; the other
  fields as requested. The numbers are those of C's \<^verbatim>\<open>int\<close>.
\<close>

definition honoured :: "16 word \<Rightarrow> 16 word \<Rightarrow> int \<Rightarrow> int list" where
  "honoured b m v = (if b AND m \<noteq> 0 then [v] else [])"

definition configure_values :: "env \<Rightarrow> monitor_t \<Rightarrow> xcb_configure_request_event_t \<Rightarrow> int list" where
  "configure_values E m ce =
     honoured XCB_CONFIG_WINDOW_X (ce_value_mask ce) (sint (ce_x ce))
     @ honoured XCB_CONFIG_WINDOW_Y (ce_value_mask ce)
         (if bar_bottom (conf E) then sint (ce_y ce)
          else sint (ce_y ce) + uint (bar_height (ws m)))
     @ honoured XCB_CONFIG_WINDOW_WIDTH (ce_value_mask ce)
         (min (uint (ce_width ce)) (uint (rect_width (mon_rect m)) - uint (border_px (conf E))))
     @ honoured XCB_CONFIG_WINDOW_HEIGHT (ce_value_mask ce)
         (min (uint (ce_height ce)) (uint (rect_height (mon_rect m)) - uint (border_px (conf E))))
     @ honoured XCB_CONFIG_WINDOW_BORDER_WIDTH (ce_value_mask ce) (uint (ce_border_width ce))
     @ honoured XCB_CONFIG_WINDOW_SIBLING (ce_value_mask ce) (uint (ce_sibling ce))
     @ honoured XCB_CONFIG_WINDOW_STACK_MODE (ce_value_mask ce) (uint (ce_stack_mode ce))"

text \<open>
  The array \<^verbatim>\<open>vals\<close> and the index \<^verbatim>\<open>i\<close> after a list of values has been put:
  the values converted to \<^verbatim>\<open>uint32_t\<close>, then the zeros of the initialiser. A value
  fits 32 bits when it is the signed or the unsigned reading of a 32-bit word.
\<close>

definition vals_of :: "int list \<Rightarrow> 32 word list \<times> nat" where
  "vals_of xs = (map word_of_int xs @ replicate (7 - length xs) 0, length xs)"

definition fits_32 :: "int \<Rightarrow> bool" where
  "fits_32 v = (- 2147483648 \<le> v \<and> v < 4294967296)"

subsection \<open>A concrete configuration\<close>

text \<open>
  Atoms 101 to 112, a 1920 by 1080 monitor with a bar of height 20 and four workspaces, the
  root window 1, and a registry that manages window 7. The answers to the window-type,
  transient-for and geometry queries are parameters.
\<close>

definition ex_ewmh :: ewmh_atoms where
  "ex_ewmh =
     \<lparr>NET_WM_WINDOW_TYPE_DOCK = 101, NET_WM_WINDOW_TYPE_TOOLBAR = 102,
      NET_WM_WINDOW_TYPE_NOTIFICATION = 103, NET_WM_WINDOW_TYPE_DROPDOWN_MENU = 104,
      NET_WM_WINDOW_TYPE_SPLASH = 105, NET_WM_WINDOW_TYPE_POPUP_MENU = 106,
      NET_WM_WINDOW_TYPE_TOOLTIP = 107, NET_WM_WINDOW_TYPE_DIALOG = 108,
      NET_WM_STATE = 109, NET_CLOSE_WINDOW = 110, NET_ACTIVE_WINDOW = 111,
      NET_CURRENT_DESKTOP = 112\<rparr>"

definition ex_conf :: config where
  "ex_conf =
     \<lparr>focus_mouse = True, focus_mouse_click = True, center_floating = True,
      bar_bottom = False, border_px = 2, float_spawn_width = 500, float_spawn_height = 400\<rparr>"

definition ex_mon :: monitor_t where
  "ex_mon =
     \<lparr>mon_rect = \<lparr>rect_x = 0, rect_y = 0, rect_width = 1920, rect_height = 1080\<rparr>,
      ws = \<lparr>bar_height = 20, layout = TILED\<rparr>, workspace_cnt = 4\<rparr>"

definition ex_env ::
  "xcb_atom_t list option \<Rightarrow> xcb_window_t option \<Rightarrow> xcb_get_geometry_reply_t option \<Rightarrow> env" where
  "ex_env ty tr ge =
     \<lparr>conf = ex_conf, ewmh = ex_ewmh, screen_root = 1,
      get_window_attributes = (\<lambda>w. Some \<lparr>override_redirect = 0\<rparr>),
      get_wm_window_type = (\<lambda>w. ty), get_wm_transient_for = (\<lambda>w. tr),
      get_geometry = (\<lambda>w. ge), point_to_monitor = (\<lambda>p. ex_mon),
      index_to_workspace = (\<lambda>m i. \<lparr>bar_height = 20, layout = ZOOM\<rparr>)\<rparr>"

definition ex_state :: state where
  "ex_state = \<lparr>clients = [new_client 7], mon = ex_mon, trace = [], logs = []\<rparr>"

definition ex_geom :: xcb_get_geometry_reply_t where
  "ex_geom = \<lparr>geom_x = 10, geom_y = 10, geom_width = 1, geom_height = 300\<rparr>"

definition ex_configure :: xcb_configure_request_event_t where
  "ex_configure =
     \<lparr>ce_stack_mode = 0, ce_window = 7, ce_sibling = 0, ce_x = 40, ce_y = 5,
      ce_width = 3000, ce_height = 100, ce_border_width = 1, ce_value_mask = 14\<rparr>"

section \<open>Effects of the collaborators and of the stages of map_event\<close>

lemma store_other:
  assumes "\<forall>d\<in>set xs. win d \<noteq> w"
  shows "map (\<lambda>d. if win d = w then c else d) xs = xs"
  using assms by (induction xs) auto

lemma store_last:
  assumes "\<forall>d\<in>set xs. win d \<noteq> w" and "win c0 = w"
  shows "map (\<lambda>d. if win d = w then c else d) (xs @ [c0]) = xs @ [c]"
  using assms by (simp add: store_other)

lemma filter_last:
  assumes "\<forall>d\<in>set xs. win d \<noteq> w" and "win c0 = w"
  shows "filter (\<lambda>d. win d \<noteq> w) (xs @ [c0]) = xs"
  using assms by (induction xs) auto

lemma emit_fields [simp]:
  "clients (emit a s) = clients s" "mon (emit a s) = mon s"
  "trace (emit a s) = trace s @ [a]" "logs (emit a s) = logs s"
  by (simp_all add: emit_def)

lemma log_info_fields [simp]:
  "clients (log_info m s) = clients s" "mon (log_info m s) = mon s"
  "trace (log_info m s) = trace s" "logs (log_info m s) = logs s @ [Info m]"
  by (simp_all add: log_info_def)

lemma log_debug_fields [simp]:
  "clients (log_debug m s) = clients s" "mon (log_debug m s) = mon s"
  "trace (log_debug m s) = trace s" "logs (log_debug m s) = logs s @ [Debug m]"
  by (simp_all add: log_debug_def)

lemma store_client_fields [simp]:
  "clients (store_client c s) = map (\<lambda>d. if win d = win c then c else d) (clients s)"
  "mon (store_client c s) = mon s" "trace (store_client c s) = trace s"
  "logs (store_client c s) = logs s"
  by (simp_all add: store_client_def)

lemma create_client_fields [simp]:
  "clients (create_client w s) = clients s @ [new_client w]" "mon (create_client w s) = mon s"
  "trace (create_client w s) = trace s @ [Create_client w]" "logs (create_client w s) = logs s"
  by (simp_all add: create_client_def)

lemma remove_client_fields [simp]:
  "clients (remove_client c f s) = filter (\<lambda>d. win d \<noteq> win c) (clients s)"
  "mon (remove_client c f s) = mon s"
  "trace (remove_client c f s) = trace s @ [Remove_client (win c) f]"
  "logs (remove_client c f s) = logs s"
  by (simp_all add: remove_client_def)

lemma call_fields [simp]:
  "clients (arrange_windows s) = clients s" "mon (arrange_windows s) = mon s"
  "trace (arrange_windows s) = trace s @ [Arrange_windows]" "logs (arrange_windows s) = logs s"
  "clients (howm_info s) = clients s" "mon (howm_info s) = mon s"
  "trace (howm_info s) = trace s @ [Howm_info]" "logs (howm_info s) = logs s"
  "clients (focus_window w s) = clients s" "mon (focus_window w s) = mon s"
  "trace (focus_window w s) = trace s @ [Focus_window w]" "logs (focus_window w s) = logs s"
  "clients (xcb_map_window w s) = clients s" "mon (xcb_map_window w s) = mon s"
  "trace (xcb_map_window w s) = trace s @ [Xcb_map_window w]" "logs (xcb_map_window w s) = logs s"
  "clients (grab_buttons c s) = clients s" "mon (grab_buttons c s) = mon s"
  "trace (grab_buttons c s) = trace s @ [Grab_buttons (win c)]" "logs (grab_buttons c s) = logs s"
  "clients (update_focused_client co s) = clients s" "mon (update_focused_client co s) = mon s"
  "trace (update_focused_client co s) = trace s @ [Update_focused_client (map_option win co)]"
  "logs (update_focused_client co s) = logs s"
  "clients (ewmh_process_wm_state c a v s) = clients s" "mon (ewmh_process_wm_state c a v s) = mon s"
  "trace (ewmh_process_wm_state c a v s) = trace s @ [Ewmh_process_wm_state (win c) a v]"
  "logs (ewmh_process_wm_state c a v s) = logs s"
  by (simp_all add: arrange_windows_def howm_info_def focus_window_def xcb_map_window_def
        grab_buttons_def update_focused_client_def ewmh_process_wm_state_def)

lemma ws_fields [simp]:
  "clients (focus_monitor m s) = clients s" "mon (focus_monitor m s) = m"
  "trace (focus_monitor m s) = trace s @ [Focus_monitor m]" "logs (focus_monitor m s) = logs s"
  "clients (change_ws w s) = clients s" "mon (change_ws w s) = (mon s)\<lparr>ws := w\<rparr>"
  "trace (change_ws w s) = trace s @ [Change_ws w]" "logs (change_ws w s) = logs s"
  by (simp_all add: focus_monitor_def change_ws_def)

lemma scan_win [simp]: "win (fst (snd (scan_window_types e as c s))) = win c"
  by (induction as arbitrary: c s) simp_all

lemma scan_mon [simp]: "mon (snd (snd (scan_window_types e as c s))) = mon s"
  by (induction as arbitrary: c s) simp_all

lemma scan_logs [simp]: "logs (snd (snd (scan_window_types e as c s))) = logs s"
  by (induction as arbitrary: c s) simp_all

lemma scan_rect [simp]: "rect (fst (snd (scan_window_types e as c s))) = rect c"
  by (induction as arbitrary: c s) simp_all

lemma scan_is_transient [simp]:
  "is_transient (fst (snd (scan_window_types e as c s))) = is_transient c"
  by (induction as arbitrary: c s) simp_all

lemma scan_returned: "fst (scan_window_types e as c s) \<longleftrightarrow> list_ex (is_dock_type e) as"
  by (induction as arbitrary: c s) simp_all

lemma scan_is_floating:
  "\<not> list_ex (is_dock_type e) as \<Longrightarrow>
   is_floating (fst (snd (scan_window_types e as c s)))
     \<longleftrightarrow> is_floating c \<or> list_ex (is_floating_type e) as"
  by (induction as arbitrary: c s) simp_all

lemma scan_clients_returned:
  assumes "\<forall>d\<in>set xs. win d \<noteq> win c" and "clients s = xs @ [c]"
    and "list_ex (is_dock_type e) as"
  shows "clients (snd (snd (scan_window_types e as c s))) = xs"
  using assms
proof (induction as arbitrary: c s)
  case Nil
  then show ?case by simp
next
  case (Cons a as)
  show ?case
  proof (cases "is_dock_type e a")
    case True
    with Cons.prems show ?thesis by (simp add: filter_last)
  next
    case nd: False
    let ?c = "c\<lparr>is_floating := True\<rparr>"
    have p1: "\<forall>d\<in>set xs. win d \<noteq> win ?c" using Cons.prems(1) by simp
    have p2: "clients (store_client ?c s) = xs @ [?c]"
      using Cons.prems(1,2) by (simp add: store_other)
    have p3: "list_ex (is_dock_type e) as" using Cons.prems(3) nd by simp
    show ?thesis
      using nd Cons.IH [OF p1 p2 p3] Cons.IH [OF Cons.prems(1,2) p3] by simp
  qed
qed

lemma scan_clients_kept:
  assumes "\<forall>d\<in>set xs. win d \<noteq> win c" and "clients s = xs @ [c]"
    and "\<not> list_ex (is_dock_type e) as"
  shows "clients (snd (snd (scan_window_types e as c s)))
           = xs @ [fst (snd (scan_window_types e as c s))]"
  using assms
proof (induction as arbitrary: c s)
  case Nil
  then show ?case by simp
next
  case (Cons a as)
  let ?c = "c\<lparr>is_floating := True\<rparr>"
  have nd: "\<not> is_dock_type e a" and p3: "\<not> list_ex (is_dock_type e) as"
    using Cons.prems(3) by simp_all
  have p1: "\<forall>d\<in>set xs. win d \<noteq> win ?c" using Cons.prems(1) by simp
  have p2: "clients (store_client ?c s) = xs @ [?c]"
    using Cons.prems(1,2) by (simp add: store_other)
  show ?case
    using nd Cons.IH [OF p1 p2 p3] Cons.IH [OF Cons.prems(1,2) p3] by simp
qed

lemma scan_trace:
  "trace (snd (snd (scan_window_types e as c s)))
     = (if list_ex (is_dock_type e) as
        then trace s @ [Xcb_map_window (win c), Remove_client (win c) False]
        else trace s)"
  by (induction as arbitrary: c s) simp_all

lemma find_client_None: "find_client_by_win s w = None \<longleftrightarrow> (\<forall>d\<in>set (clients s). win d \<noteq> w)"
  by (auto simp: find_client_by_win_def find_None_iff)

lemma find_last:
  assumes "\<forall>d\<in>set xs. win d \<noteq> w" and "win c = w"
  shows "List.find (\<lambda>d. win d = w) (xs @ [c]) = Some c"
  using assms by (induction xs) auto

lemma find_client_last:
  assumes "\<forall>d\<in>set xs. win d \<noteq> w" and "clients s = xs @ [c]" and "win c = w"
  shows "find_client_by_win s w = Some c"
  using assms by (simp add: find_client_by_win_def find_last)

lemma map_transient_fields [simp]:
  "win (fst (map_transient E w cs)) = win (fst cs)"
  "rect (fst (map_transient E w cs)) = rect (fst cs)"
  "is_transient (fst (map_transient E w cs)) \<longleftrightarrow> transient_target E w \<noteq> 0"
  "is_floating (fst (map_transient E w cs)) \<longleftrightarrow> is_floating (fst cs) \<or> transient_target E w \<noteq> 0"
  "mon (snd (map_transient E w cs)) = mon (snd cs)"
  "trace (snd (map_transient E w cs)) = trace (snd cs)"
  "logs (snd (map_transient E w cs)) = logs (snd cs)"
  by (simp_all add: map_transient_def transient_target_def Let_def)

lemma map_transient_clients:
  assumes "\<forall>d\<in>set xs. win d \<noteq> win (fst cs)" and "clients (snd cs) = xs @ [fst cs]"
  shows "clients (snd (map_transient E w cs)) = xs @ [fst (map_transient E w cs)]"
  using assms by (simp add: map_transient_def Let_def store_other)

lemma sdiv_nonneg: "0 \<le> (a::int) \<Longrightarrow> a sdiv 2 = a div 2"
  by (simp add: signed_divide_int_def sgn_if)

lemma map_geometry_fields [simp]:
  "win (fst (map_geometry E w cs)) = win (fst cs)"
  "is_transient (fst (map_geometry E w cs)) = is_transient (fst cs)"
  "is_floating (fst (map_geometry E w cs)) = is_floating (fst cs)"
  "mon (snd (map_geometry E w cs)) = mon (snd cs)"
  "trace (snd (map_geometry E w cs)) = trace (snd cs)"
  by (simp_all add: map_geometry_def Let_def split: option.split)

lemma map_geometry_rect:
  "rect (fst (map_geometry E w cs)) =
     (case get_geometry E w of
        None \<Rightarrow> rect (fst cs)
      | Some geom \<Rightarrow> if is_floating (fst cs) then floating_spawn_rect E (mon (snd cs)) geom
                     else rect (fst cs))"
  by (simp add: map_geometry_def floating_spawn_rect_def Let_def sdiv_nonneg split: option.split)

lemma map_geometry_clients:
  assumes "\<forall>d\<in>set xs. win d \<noteq> win (fst cs)" and "clients (snd cs) = xs @ [fst cs]"
  shows "clients (snd (map_geometry E w cs)) = xs @ [fst (map_geometry E w cs)]"
  using assms by (simp add: map_geometry_def Let_def store_other split: option.split)

lemma map_finish_fields [simp]:
  "clients (map_finish cs) = clients (snd cs)"
  "mon (map_finish cs) = mon (snd cs)"
  "trace (map_finish cs) = trace (snd cs) @ [Arrange_windows, Xcb_map_window (win (fst cs)),
     Update_focused_client (Some (win (fst cs))), Grab_buttons (win (fst cs))]"
  by (simp_all add: map_finish_def)

lemma map_event_rejected:
  "\<not> passes_guard E (me_window me) s \<Longrightarrow> map_event E me s = s"
  by (cases "get_window_attributes E (me_window me)") (auto simp: map_event_def passes_guard_def)

lemma map_event_dock:
  assumes g: "passes_guard E (me_window me) s" and d: "dock_hit E (me_window me)"
  shows "clients (map_event E me s) = clients s"
    and "mon (map_event E me s) = mon s"
    and "trace (map_event E me s) = trace s @ [Create_client (me_window me),
           Xcb_map_window (me_window me), Remove_client (me_window me) False]"
proof -
  let ?w = "me_window me"
  let ?s2 = "create_client ?w (log_info ''Mapping request for window <0x%x>'' s)"
  from d obtain atoms where ty: "get_wm_window_type E ?w = Some atoms"
    and hit: "list_ex (is_dock_type (ewmh E)) atoms"
    by (auto simp: dock_hit_def split: option.splits)
  from g obtain wa where wa: "get_window_attributes E ?w = Some wa" "override_redirect wa = 0"
    and nf: "find_client_by_win s ?w = None"
    by (auto simp: passes_guard_def split: option.splits)
  have fresh: "\<forall>d\<in>set (clients s). win d \<noteq> win (new_client ?w)"
    using nf by (simp add: find_client_None new_client_def)
  have cl: "clients ?s2 = clients s @ [new_client ?w]" by simp
  have eq: "map_event E me s = snd (snd (scan_window_types (ewmh E) atoms (new_client ?w) ?s2))"
    using wa nf ty hit by (simp add: map_event_def Let_def scan_returned)
  show "clients (map_event E me s) = clients s"
    unfolding eq using scan_clients_returned [OF fresh cl hit] .
  show "mon (map_event E me s) = mon s"
    unfolding eq by simp
  show "trace (map_event E me s) = trace s @ [Create_client (me_window me),
           Xcb_map_window (me_window me), Remove_client (me_window me) False]"
    unfolding eq using hit by (simp add: scan_trace new_client_def)
qed

text \<open>The client that a completed map request leaves in the registry.\<close>

lemma map_event_managed:
  assumes g: "passes_guard E (me_window me) s" and d: "\<not> dock_hit E (me_window me)"
  shows "\<exists>c. clients (map_event E me s) = clients s @ [c]
             \<and> find_client_by_win (map_event E me s) (me_window me) = Some c
             \<and> win c = me_window me
             \<and> (is_transient c \<longleftrightarrow> transient_target E (me_window me) \<noteq> 0)
             \<and> (is_floating c \<longleftrightarrow>
                  floating_hit E (me_window me) \<or> transient_target E (me_window me) \<noteq> 0)
             \<and> rect c = (case get_geometry E (me_window me) of
                           None \<Rightarrow> rect (new_client (me_window me))
                         | Some geom \<Rightarrow>
                             if is_floating c then floating_spawn_rect E (mon s) geom
                             else rect (new_client (me_window me)))"
    and "mon (map_event E me s) = mon s"
    and "trace (map_event E me s) = trace s @ [Create_client (me_window me), Arrange_windows,
           Xcb_map_window (me_window me), Update_focused_client (Some (me_window me)),
           Grab_buttons (me_window me)]"
proof -
  let ?w = "me_window me"
  let ?c0 = "new_client ?w"
  let ?s2 = "create_client ?w (log_info ''Mapping request for window <0x%x>'' s)"
  let ?r = "case get_wm_window_type E ?w of
              Some atoms \<Rightarrow> scan_window_types (ewmh E) atoms ?c0 ?s2
            | None \<Rightarrow> (False, ?c0, ?s2)"
  let ?t = "map_transient E ?w (snd ?r)"
  let ?g = "map_geometry E ?w ?t"
  from g obtain wa where wa: "get_window_attributes E ?w = Some wa" "override_redirect wa = 0"
    and nf: "find_client_by_win s ?w = None"
    by (auto simp: passes_guard_def split: option.splits)
  have fresh0: "\<forall>d\<in>set (clients s). win d \<noteq> win ?c0"
    using nf by (simp add: find_client_None new_client_def)
  have cl0: "clients ?s2 = clients s @ [?c0]" by simp
  have r_ret: "\<not> fst ?r"
    using d by (auto simp: dock_hit_def scan_returned split: option.splits)
  have r_win: "win (fst (snd ?r)) = ?w"
    by (simp add: new_client_def split: option.splits)
  have r_cl: "clients (snd (snd ?r)) = clients s @ [fst (snd ?r)]"
    using d scan_clients_kept [OF fresh0 cl0]
    by (auto simp: dock_hit_def split: option.splits)
  have r_fl: "is_floating (fst (snd ?r)) \<longleftrightarrow> floating_hit E ?w"
    using d by (auto simp: dock_hit_def floating_hit_def scan_is_floating new_client_def
        split: option.splits)
  have r_tr: "trace (snd (snd ?r)) = trace s @ [Create_client ?w]"
    using d by (auto simp: dock_hit_def scan_trace split: option.splits)
  have r_mon: "mon (snd (snd ?r)) = mon s"
    by (simp split: option.splits)
  have r_rect: "rect (fst (snd ?r)) = rect ?c0"
    by (simp split: option.splits)
  have fresh: "\<forall>d\<in>set (clients s). win d \<noteq> ?w"
    using nf by (simp add: find_client_None)
  have t_cl: "clients (snd ?t) = clients s @ [fst ?t]"
    by (rule map_transient_clients) (use fresh r_win r_cl in simp_all)
  have g_cl: "clients (snd ?g) = clients s @ [fst ?g]"
    by (rule map_geometry_clients) (use fresh r_win t_cl in simp_all)
  have eq: "map_event E me s = map_finish ?g"
    using wa nf r_ret by (simp add: map_event_def Let_def)
  have g_win: "win (fst ?g) = ?w" using r_win by simp
  have cl: "clients (map_event E me s) = clients s @ [fst ?g]"
    unfolding eq using g_cl by simp
  have fl: "is_floating (fst ?g) \<longleftrightarrow> floating_hit E ?w \<or> transient_target E ?w \<noteq> 0"
    using r_fl by simp
  have "rect (fst ?g) = (case get_geometry E ?w of
                           None \<Rightarrow> rect ?c0
                         | Some geom \<Rightarrow>
                             if is_floating (fst ?g) then floating_spawn_rect E (mon s) geom
                             else rect ?c0)"
    using r_rect r_mon by (simp add: map_geometry_rect split: option.splits)
  with cl g_win fl find_client_last [OF fresh cl g_win]
  show "\<exists>c. clients (map_event E me s) = clients s @ [c]
             \<and> find_client_by_win (map_event E me s) ?w = Some c
             \<and> win c = ?w
             \<and> (is_transient c \<longleftrightarrow> transient_target E ?w \<noteq> 0)
             \<and> (is_floating c \<longleftrightarrow> floating_hit E ?w \<or> transient_target E ?w \<noteq> 0)
             \<and> rect c = (case get_geometry E ?w of
                           None \<Rightarrow> rect ?c0
                         | Some geom \<Rightarrow>
                             if is_floating c then floating_spawn_rect E (mon s) geom
                             else rect ?c0)"
    by (intro exI [of _ "fst ?g"]) simp
  show "mon (map_event E me s) = mon s"
    unfolding eq using r_mon by simp
  show "trace (map_event E me s) = trace s @ [Create_client ?w, Arrange_windows,
           Xcb_map_window ?w, Update_focused_client (Some ?w), Grab_buttons ?w]"
    unfolding eq using r_tr g_win by simp
qed

lemma new_actions_append [simp]: "trace s' = trace s @ as \<Longrightarrow> new_actions s s' = as"
  by (simp add: new_actions_def)

lemma find_client_win: "find_client_by_win s w = Some c \<Longrightarrow> win c = w"
  by (auto simp: find_client_by_win_def find_Some_iff)

lemma handle_event_mask:
  "handle_event E (ev\<lparr>response_type := response_type ev OR 0x80\<rparr>) s = handle_event E ev s"
proof -
  have "(response_type ev OR 0x80) AND NOT 0x80 = response_type ev AND NOT 0x80"
    by (rule bit_eqI) (auto simp: bit_simps)
  then show ?thesis by (simp add: handle_event_def Let_def unhandled_event_def)
qed

lemma passes_guard_iff:
  "passes_guard E w s \<longleftrightarrow>
     \<not> (get_window_attributes E w = None
        \<or> (\<exists>wa. get_window_attributes E w = Some wa \<and> override_redirect wa \<noteq> 0)
        \<or> find_client_by_win s w \<noteq> None)"
  by (cases "get_window_attributes E w") (auto simp: passes_guard_def)

lemma map_event_find_dock:
  assumes "passes_guard E (me_window me) s" and "dock_hit E (me_window me)"
  shows "find_client_by_win (map_event E me s) (me_window me) = None"
proof -
  from assms(1) have "find_client_by_win s (me_window me) = None"
    by (simp add: passes_guard_iff)
  then show ?thesis
    using map_event_dock(1) [OF assms] by (simp add: find_client_None)
qed

lemma map_event_managed_iff:
  assumes "find_client_by_win s (me_window me) = None"
  shows "find_client_by_win (map_event E me s) (me_window me) \<noteq> None
           \<longleftrightarrow> passes_guard E (me_window me) s \<and> \<not> dock_hit E (me_window me)"
proof (cases "passes_guard E (me_window me) s")
  case False
  then show ?thesis using assms by (simp add: map_event_rejected)
next
  case g: True
  show ?thesis
  proof (cases "dock_hit E (me_window me)")
    case True
    then show ?thesis using g map_event_find_dock [OF g True] by simp
  next
    case False
    then show ?thesis using g map_event_managed(1) [OF g False] by auto
  qed
qed

subsection \<open>Arithmetic of the 16-bit rectangle fields\<close>

lemma uint16_less: "uint (a :: 16 word) < 65536"
  using uint_bounded [of a] by simp

lemma sint16_of_int:
  assumes "- 32768 \<le> v" and "v < 32768"
  shows "sint (word_of_int v :: 16 word) = v"
proof -
  have "(v + 32768) mod 65536 = v + 32768"
    using assms by (intro mod_pos_pos_trivial) linarith+
  then show ?thesis by (simp add: int_word_sint)
qed

lemma center_x_exact:
  "sint ((word_of_int (uint (a :: 16 word) div 2) :: 16 word) - word_of_int (uint (b :: 16 word) div 2))
     = uint a sdiv 2 - uint b sdiv 2"
proof -
  have "0 \<le> uint a div 2" "uint a div 2 < 32768" "0 \<le> uint b div 2" "uint b div 2 < 32768"
    using uint16_less [of a] uint16_less [of b] by simp_all
  then have "sint (word_of_int (uint a div 2 - uint b div 2) :: 16 word)
               = uint a div 2 - uint b div 2"
    by (intro sint16_of_int) linarith+
  then show ?thesis
    by (simp add: sdiv_nonneg)
qed

lemma sdiv_2_upper:
  assumes "(v :: int) < 65536"
  shows "v sdiv 2 < 32768"
proof (cases "0 \<le> v")
  case True
  then show ?thesis using assms by (simp add: sdiv_nonneg)
next
  case False
  then have "v sdiv 2 = - ((- v) div 2)"
    by (simp add: signed_divide_int_def sgn_if)
  moreover from False have "0 \<le> (- v) div 2" by simp
  ultimately show ?thesis by linarith
qed

lemma center_y_upper:
  "(uint (a :: 16 word) - uint (b :: 16 word) - uint (c :: 16 word)) sdiv 2 < 32768"
proof -
  have "uint a - uint b - uint c < 65536"
    using uint16_less [of a] uint_ge_0 [of b] uint_ge_0 [of c] by linarith
  then show ?thesis by (rule sdiv_2_upper)
qed

subsection \<open>More on map_event\<close>

lemma transient_target_Some:
  "get_wm_transient_for E w = Some t \<Longrightarrow> transient_target E w = t"
  by (simp add: transient_target_def)

lemma map_event_inv:
  assumes "transient_floating_inv s"
  shows "transient_floating_inv (map_event E me s)"
proof (cases "passes_guard E (me_window me) s")
  case False
  then show ?thesis using assms by (simp add: map_event_rejected)
next
  case g: True
  show ?thesis
  proof (cases "dock_hit E (me_window me)")
    case True
    then show ?thesis
      using assms map_event_dock(1) [OF g True] by (simp add: transient_floating_inv_def)
  next
    case False
    from map_event_managed(1) [OF g False] obtain c
      where "clients (map_event E me s) = clients s @ [c]"
        and "is_transient c \<longleftrightarrow> transient_target E (me_window me) \<noteq> 0"
        and "is_floating c \<longleftrightarrow>
               floating_hit E (me_window me) \<or> transient_target E (me_window me) \<noteq> 0"
      by blast
    then show ?thesis
      using assms by (simp add: transient_floating_inv_def)
  qed
qed

text \<open>The equations that evaluate \<^const>\<open>map_event\<close> in the concrete configuration.\<close>

lemmas map_event_eval =
  map_event_def map_transient_def map_geometry_def map_finish_def Let_def
  is_dock_type_def is_floating_type_def new_client_def find_client_by_win_def
  create_client_def remove_client_def store_client_def emit_def log_info_def
  arrange_windows_def xcb_map_window_def update_focused_client_def grab_buttons_def
  ex_env_def ex_state_def ex_conf_def ex_ewmh_def ex_mon_def

lemma ex_dialog_mapped:
  "find_client_by_win (map_event (ex_env (Some [108]) None (Some ex_geom)) \<lparr>me_window = 9\<rparr> ex_state) 9
     = Some \<lparr>win = 9, is_floating = True, is_transient = False,
             rect = \<lparr>rect_x = 710, rect_y = 380, rect_width = 500, rect_height = 300\<rparr>\<rparr>"
  by (simp add: map_event_eval ex_geom_def signed_divide_int_def)

subsection \<open>The value list of configure_event\<close>

lemma put_vals_of:
  assumes "length xs < 7"
  shows "put v (vals_of xs) = vals_of (xs @ [v])"
proof -
  from assms obtain k where k: "7 - length xs = Suc k" "6 - length xs = k"
    by (cases "7 - length xs") auto
  then show ?thesis
    by (simp add: put_def vals_of_def list_update_append)
qed

lemma length_honoured: "length (honoured b m v) \<le> 1"
  by (simp add: honoured_def)

lemma put_honoured:
  assumes "length xs < 7"
  shows "(if b AND m \<noteq> 0 then put v (vals_of xs) else vals_of xs) = vals_of (xs @ honoured b m v)"
  using assms by (simp add: honoured_def put_vals_of)

lemma configure_event_vals:
  "configure_event E ce s
     = arrange_windows
         (emit (Xcb_configure_window (ce_window ce) (ce_value_mask ce)
                  (fst (vals_of (configure_values E (mon s) ce))))
            (log_info ''Received configure request for window <0x%x>'' s))"
proof -
  let ?m = "ce_value_mask ce"
  let ?x = "honoured XCB_CONFIG_WINDOW_X ?m (sint (ce_x ce))"
  let ?y = "honoured XCB_CONFIG_WINDOW_Y ?m
         (if bar_bottom (conf E) then sint (ce_y ce)
          else sint (ce_y ce) + uint (bar_height (ws (mon s))))"
  let ?w = "honoured XCB_CONFIG_WINDOW_WIDTH ?m
         (min (uint (ce_width ce)) (uint (rect_width (mon_rect (mon s))) - uint (border_px (conf E))))"
  let ?h = "honoured XCB_CONFIG_WINDOW_HEIGHT ?m
         (min (uint (ce_height ce)) (uint (rect_height (mon_rect (mon s))) - uint (border_px (conf E))))"
  let ?b = "honoured XCB_CONFIG_WINDOW_BORDER_WIDTH ?m (uint (ce_border_width ce))"
  let ?sb = "honoured XCB_CONFIG_WINDOW_SIBLING ?m (uint (ce_sibling ce))"
  let ?st = "honoured XCB_CONFIG_WINDOW_STACK_MODE ?m (uint (ce_stack_mode ce))"
  have l: "length ?x \<le> 1" "length ?y \<le> 1" "length ?w \<le> 1" "length ?h \<le> 1"
    "length ?b \<le> 1" "length ?sb \<le> 1" "length ?st \<le> 1"
    by (rule length_honoured)+
  have p0: "(replicate 7 0, 0) = vals_of []"
    by (simp add: vals_of_def)
  have m1: "(if uint (ce_width ce) < uint (rect_width (mon_rect (mon s))) - uint (border_px (conf E))
             then uint (ce_width ce)
             else uint (rect_width (mon_rect (mon s))) - uint (border_px (conf E)))
            = min (uint (ce_width ce)) (uint (rect_width (mon_rect (mon s))) - uint (border_px (conf E)))"
    by (simp add: min_def)
  have m2: "(if uint (ce_height ce) < uint (rect_height (mon_rect (mon s))) - uint (border_px (conf E))
             then uint (ce_height ce)
             else uint (rect_height (mon_rect (mon s))) - uint (border_px (conf E)))
            = min (uint (ce_height ce)) (uint (rect_height (mon_rect (mon s))) - uint (border_px (conf E)))"
    by (simp add: min_def)
  have y: "sint (ce_y ce) + (if bar_bottom (conf E) then 0 else uint (bar_height (ws (mon s))))
           = (if bar_bottom (conf E) then sint (ce_y ce)
              else sint (ce_y ce) + uint (bar_height (ws (mon s))))"
    by simp
  have s1: "(if XCB_CONFIG_WINDOW_X AND ?m \<noteq> 0 then put (sint (ce_x ce)) (vals_of []) else vals_of [])
            = vals_of ?x"
    using put_honoured [of "[]"] by simp
  have s2: "\<And>v. (if XCB_CONFIG_WINDOW_Y AND ?m \<noteq> 0 then put v (vals_of ?x) else vals_of ?x)
            = vals_of (?x @ honoured XCB_CONFIG_WINDOW_Y ?m v)"
    using l by (intro put_honoured) simp
  have s3: "\<And>v. (if XCB_CONFIG_WINDOW_WIDTH AND ?m \<noteq> 0 then put v (vals_of (?x @ ?y))
                  else vals_of (?x @ ?y))
            = vals_of ((?x @ ?y) @ honoured XCB_CONFIG_WINDOW_WIDTH ?m v)"
    using l by (intro put_honoured) simp
  have s4: "\<And>v. (if XCB_CONFIG_WINDOW_HEIGHT AND ?m \<noteq> 0 then put v (vals_of ((?x @ ?y) @ ?w))
                  else vals_of ((?x @ ?y) @ ?w))
            = vals_of (((?x @ ?y) @ ?w) @ honoured XCB_CONFIG_WINDOW_HEIGHT ?m v)"
    using l by (intro put_honoured) simp
  have s5: "\<And>v. (if XCB_CONFIG_WINDOW_BORDER_WIDTH AND ?m \<noteq> 0
                  then put v (vals_of ((((?x @ ?y) @ ?w) @ ?h)))
                  else vals_of ((((?x @ ?y) @ ?w) @ ?h)))
            = vals_of (((((?x @ ?y) @ ?w) @ ?h)) @ honoured XCB_CONFIG_WINDOW_BORDER_WIDTH ?m v)"
    using l by (intro put_honoured) simp
  have s6: "\<And>v. (if XCB_CONFIG_WINDOW_SIBLING AND ?m \<noteq> 0
                  then put v (vals_of (((((?x @ ?y) @ ?w) @ ?h)) @ ?b))
                  else vals_of (((((?x @ ?y) @ ?w) @ ?h)) @ ?b))
            = vals_of ((((((?x @ ?y) @ ?w) @ ?h)) @ ?b) @ honoured XCB_CONFIG_WINDOW_SIBLING ?m v)"
    using l by (intro put_honoured) simp
  have s7: "\<And>v. (if XCB_CONFIG_WINDOW_STACK_MODE AND ?m \<noteq> 0
                  then put v (vals_of ((((((?x @ ?y) @ ?w) @ ?h)) @ ?b) @ ?sb))
                  else vals_of ((((((?x @ ?y) @ ?w) @ ?h)) @ ?b) @ ?sb))
            = vals_of (((((((?x @ ?y) @ ?w) @ ?h)) @ ?b) @ ?sb)
                        @ honoured XCB_CONFIG_WINDOW_STACK_MODE ?m v)"
    using l by (intro put_honoured) simp
  show ?thesis
    unfolding configure_event_def Let_def log_info_fields p0 m1 m2 y s1 s2 s3 s4 s5 s6 s7
      configure_values_def
    by (simp only: append_assoc)
qed

lemma sint16_range: "- 32768 \<le> sint (a :: 16 word)" "sint (a :: 16 word) < 32768"
  using sint_ge [of a] sint_lt [of a] by simp_all

lemma uint8_less: "uint (a :: 8 word) < 256"
  using uint_bounded [of a] by simp

lemma uint32_less: "uint (a :: 32 word) < 4294967296"
  using uint_bounded [of a] by simp

lemma fits_sint16: "fits_32 (sint (a :: 16 word))"
  using sint16_range [of a] unfolding fits_32_def by linarith

lemma fits_uint16: "fits_32 (uint (a :: 16 word))"
  using uint16_less [of a] uint_ge_0 [of a] unfolding fits_32_def by linarith

lemma fits_uint8: "fits_32 (uint (a :: 8 word))"
  using uint8_less [of a] uint_ge_0 [of a] unfolding fits_32_def by linarith

lemma fits_uint32: "fits_32 (uint (a :: 32 word))"
  using uint32_less [of a] uint_ge_0 [of a] unfolding fits_32_def by linarith

lemma fits_y: "fits_32 (sint (a :: 16 word) + uint (b :: 16 word))"
  using sint16_range [of a] uint16_less [of b] uint_ge_0 [of b] unfolding fits_32_def by linarith

lemma fits_min_int:
  assumes "- 65536 < (p :: int)" "p < 65536" "- 65536 < (q :: int)" "q < 65536"
  shows "fits_32 (min p q)"
  using assms by (simp add: fits_32_def min_def)

lemma fits_min: "fits_32 (min (uint (a :: 16 word)) (uint (b :: 16 word) - uint (c :: 16 word)))"
proof (rule fits_min_int)
  show "- 65536 < uint a" using uint_ge_0 [of a] by linarith
  show "uint a < 65536" by (rule uint16_less)
  show "- 65536 < uint b - uint c" using uint_ge_0 [of b] uint16_less [of c] by linarith
  show "uint b - uint c < 65536" using uint_ge_0 [of c] uint16_less [of b] by linarith
qed

lemma honoured_all: "P v \<Longrightarrow> list_all P (honoured b m v)"
  by (simp add: honoured_def)

lemma configure_values_range: "list_all fits_32 (configure_values E m ce)"
  unfolding configure_values_def list_all_append
  by (intro conjI honoured_all fits_sint16 fits_uint16 fits_uint8 fits_uint32 fits_min)
     (simp add: fits_sint16 fits_y)

lemma length_configure_values: "length (configure_values E m ce) \<le> 7"
  by (simp add: configure_values_def honoured_def)

subsection \<open>The dispatcher and truncating division\<close>

text \<open>An event whose masked kind is none of the seven case labels is only logged.\<close>

lemma handle_event_unknown:
  assumes "response_type ev AND NOT 0x80
             \<notin> {XCB_BUTTON_PRESS, XCB_MAP_REQUEST, XCB_DESTROY_NOTIFY, XCB_ENTER_NOTIFY,
                 XCB_CONFIGURE_NOTIFY, XCB_UNMAP_NOTIFY, XCB_CLIENT_MESSAGE}"
  shows "handle_event E ev s = s\<lparr>logs := logs s @ [Debug ''Unhandled event: %d'']\<rparr>"
  using assms by (simp add: handle_event_def Let_def unhandled_event_def log_debug_def)

text \<open>
  With a monitor of height 100 and a window of height 201 the centred \<open>y\<close> is
  \<open>-101 / 2 = -50\<close>: the division truncates towards zero.
\<close>

lemma floating_spawn_rect_truncates:
  "sint (rect_y (floating_spawn_rect (ex_env None None None)
      \<lparr>mon_rect = \<lparr>rect_x = 0, rect_y = 0, rect_width = 100, rect_height = 100\<rparr>,
       ws = \<lparr>bar_height = 0, layout = TILED\<rparr>, workspace_cnt = 1\<rparr>
      \<lparr>geom_x = 0, geom_y = 0, geom_width = 50, geom_height = 201\<rparr>)) = - 50"
  by (simp add: floating_spawn_rect_def ex_env_def ex_conf_def signed_divide_int_def Let_def)

section \<open>The properties\<close>

subsection \<open>C1: what the unmap handler removes\<close>

text \<open>
  C1, as amended. For an unmap-notify event whose window resolves to a managed Client and
  whose reporting window is not the root window, the handler removes that Client with the
  flag of the registry's remove operation set to true (the value the destroy handler
  passes), then re-runs layout, then refreshes the status. If the reporting window is the
  root window, nothing is removed.
\<close>

theorem unmap_event_forced_removal:
  assumes "find_client_by_win s (ue_window ue) = Some c"
  shows "win c = ue_window ue
         \<and> (ue_event ue \<noteq> screen_root E \<longrightarrow>
              new_actions s (unmap_event E ue s)
                = [Remove_client (ue_window ue) True, Arrange_windows, Howm_info]
              \<and> clients (unmap_event E ue s)
                  = filter (\<lambda>d. win d \<noteq> ue_window ue) (clients s))
         \<and> (ue_event ue = screen_root E \<longrightarrow>
              new_actions s (unmap_event E ue s) = [Howm_info]
              \<and> clients (unmap_event E ue s) = clients s)"
  using assms find_client_win [OF assms] by (simp add: unmap_event_def Let_def)

text \<open>The amended statement at window 7, reported by window 7 and by the root window 1.\<close>

theorem unmap_event_forced_removal_witness:
  "find_client_by_win ex_state 7 = Some (new_client 7)
   \<and> new_actions ex_state
        (unmap_event (ex_env None None None) \<lparr>ue_event = 7, ue_window = 7\<rparr> ex_state)
       = [Remove_client 7 True, Arrange_windows, Howm_info]
   \<and> new_actions ex_state
        (unmap_event (ex_env None None None) \<lparr>ue_event = 1, ue_window = 7\<rparr> ex_state)
       = [Howm_info]"
proof -
  have h1: "find_client_by_win ex_state (ue_window \<lparr>ue_event = 7, ue_window = 7\<rparr>)
              = Some (new_client 7)"
    by (simp add: find_client_by_win_def ex_state_def new_client_def)
  have h2: "find_client_by_win ex_state (ue_window \<lparr>ue_event = 1, ue_window = 7\<rparr>)
              = Some (new_client 7)"
    by (simp add: find_client_by_win_def ex_state_def new_client_def)
  show ?thesis
    using unmap_event_forced_removal [OF h1, of "ex_env None None None"]
      unmap_event_forced_removal [OF h2, of "ex_env None None None"] h1
    by (simp add: ex_env_def)
qed

text \<open>
  C1 as stated says the flag is false. For window 7 reported by window 7 the handler calls
  the remove operation with true, and never with false.
\<close>

theorem unmap_event_non_forced_counterexample:
  "find_client_by_win ex_state 7 = Some (new_client 7)
   \<and> ue_event \<lparr>ue_event = 7, ue_window = 7\<rparr> \<noteq> screen_root (ex_env None None None)
   \<and> Remove_client 7 False
        \<notin> set (trace (unmap_event (ex_env None None None) \<lparr>ue_event = 7, ue_window = 7\<rparr> ex_state))
   \<and> Remove_client 7 True
        \<in> set (trace (unmap_event (ex_env None None None) \<lparr>ue_event = 7, ue_window = 7\<rparr> ex_state))"
  by (simp add: unmap_event_def find_client_by_win_def ex_state_def new_client_def ex_env_def
      Let_def)

subsection \<open>C2: the dispatcher\<close>

text \<open>
  C2 names configure-request among the seven kinds the dispatcher routes. The
  \<^verbatim>\<open>switch\<close> has the label \<^verbatim>\<open>XCB_CONFIGURE_NOTIFY\<close> in front of
  \<^verbatim>\<open>configure_event\<close>: an event of kind configure-request (23) reaches none of the
  seven handlers and is dropped as unhandled, and an event of kind configure-notify (22),
  which is not among the seven kinds, is read as a configure request and acted on.
\<close>

theorem handle_event_configure_request_unhandled:
  "handle_event E (ev\<lparr>response_type := XCB_CONFIGURE_REQUEST\<rparr>) s
     = s\<lparr>logs := logs s @ [Debug ''Unhandled event: %d'']\<rparr>
   \<and> handle_event E (ev\<lparr>response_type := XCB_CONFIGURE_NOTIFY\<rparr>) s
       = configure_event E (as_configure_request ev) s
   \<and> length (new_actions s (handle_event E (ev\<lparr>response_type := XCB_CONFIGURE_NOTIFY\<rparr>) s)) = 2"
  by (simp add: handle_event_def unhandled_event_def log_debug_def configure_event_def Let_def
      new_actions_def
      XCB_BUTTON_PRESS_def XCB_ENTER_NOTIFY_def XCB_DESTROY_NOTIFY_def XCB_UNMAP_NOTIFY_def
      XCB_MAP_REQUEST_def XCB_CONFIGURE_NOTIFY_def XCB_CONFIGURE_REQUEST_def
      XCB_CLIENT_MESSAGE_def)

subsection \<open>C3: mapping is idempotent\<close>

text \<open>
  C3. A map request is a no-op (the state is returned unchanged) when the attribute query
  fails, when the window declares override-redirect, or when the window is already a
  managed Client. Hence a second map request for a window that the first one left managed
  changes nothing, whatever the server answers the second time, and two map requests for a
  window that the first one registers leave exactly one Client for that window.
\<close>

theorem map_event_idempotent:
  "(get_window_attributes E (me_window me) = None
      \<or> (\<exists>wa. get_window_attributes E (me_window me) = Some wa \<and> override_redirect wa \<noteq> 0)
      \<or> find_client_by_win s (me_window me) \<noteq> None
    \<longrightarrow> map_event E me s = s)
   \<and> (find_client_by_win (map_event E me s) (me_window me) \<noteq> None
        \<longrightarrow> map_event E' me (map_event E me s) = map_event E me s)
   \<and> (passes_guard E (me_window me) s \<and> \<not> dock_hit E (me_window me)
        \<longrightarrow> length (filter (\<lambda>c. win c = me_window me)
                      (clients (map_event E' me (map_event E me s)))) = 1)"
proof (intro conjI impI)
  assume "get_window_attributes E (me_window me) = None
      \<or> (\<exists>wa. get_window_attributes E (me_window me) = Some wa \<and> override_redirect wa \<noteq> 0)
      \<or> find_client_by_win s (me_window me) \<noteq> None"
  then have "\<not> passes_guard E (me_window me) s" by (simp add: passes_guard_iff)
  then show "map_event E me s = s" by (rule map_event_rejected)
next
  assume "find_client_by_win (map_event E me s) (me_window me) \<noteq> None"
  then have "\<not> passes_guard E' (me_window me) (map_event E me s)"
    by (simp add: passes_guard_iff)
  then show "map_event E' me (map_event E me s) = map_event E me s" by (rule map_event_rejected)
next
  assume a: "passes_guard E (me_window me) s \<and> \<not> dock_hit E (me_window me)"
  then have g: "passes_guard E (me_window me) s" and d: "\<not> dock_hit E (me_window me)"
    by simp_all
  from map_event_managed(1) [OF g d] obtain c
    where cl: "clients (map_event E me s) = clients s @ [c]"
      and f: "find_client_by_win (map_event E me s) (me_window me) = Some c"
      and w: "win c = me_window me"
    by blast
  from f have "\<not> passes_guard E' (me_window me) (map_event E me s)"
    by (simp add: passes_guard_iff)
  then have same: "map_event E' me (map_event E me s) = map_event E me s"
    by (rule map_event_rejected)
  from g have "\<forall>d\<in>set (clients s). win d \<noteq> me_window me"
    by (simp add: passes_guard_iff find_client_None)
  then have "filter (\<lambda>c. win c = me_window me) (clients s) = []"
    by (simp add: filter_empty_conv)
  then show "length (filter (\<lambda>c. win c = me_window me)
                      (clients (map_event E' me (map_event E me s)))) = 1"
    unfolding same cl using w by simp
qed

text \<open>
  Window 7 is managed already; window 9 is registered by the first request and the second
  request, although it now reports a DIALOG type, changes nothing.
\<close>

theorem map_event_idempotent_witness:
  "passes_guard (ex_env None None None) 9 ex_state
   \<and> \<not> dock_hit (ex_env None None None) 9
   \<and> find_client_by_win ex_state 7 \<noteq> None
   \<and> map_event (ex_env None None None) \<lparr>me_window = 7\<rparr> ex_state = ex_state
   \<and> find_client_by_win (map_event (ex_env None None None) \<lparr>me_window = 9\<rparr> ex_state) 9 \<noteq> None
   \<and> map_event (ex_env (Some [108]) None None) \<lparr>me_window = 9\<rparr>
        (map_event (ex_env None None None) \<lparr>me_window = 9\<rparr> ex_state)
       = map_event (ex_env None None None) \<lparr>me_window = 9\<rparr> ex_state
   \<and> length (filter (\<lambda>c. win c = 9)
        (clients (map_event (ex_env (Some [108]) None None) \<lparr>me_window = 9\<rparr>
                   (map_event (ex_env None None None) \<lparr>me_window = 9\<rparr> ex_state)))) = 1"
proof -
  let ?E = "ex_env None None None"
  let ?E' = "ex_env (Some [108]) None None"
  have g: "passes_guard ?E (me_window \<lparr>me_window = 9\<rparr>) ex_state"
    by (simp add: passes_guard_def ex_env_def find_client_by_win_def ex_state_def new_client_def)
  have d: "\<not> dock_hit ?E (me_window \<lparr>me_window = 9\<rparr>)"
    by (simp add: dock_hit_def ex_env_def)
  have m: "find_client_by_win ex_state (me_window \<lparr>me_window = 7\<rparr>) \<noteq> None"
    by (simp add: find_client_by_win_def ex_state_def new_client_def)
  have f: "find_client_by_win (map_event ?E \<lparr>me_window = 9\<rparr> ex_state) (me_window \<lparr>me_window = 9\<rparr>)
             \<noteq> None"
    using map_event_managed_iff [of ex_state "\<lparr>me_window = 9\<rparr>" ?E] g d
    by (simp add: passes_guard_iff)
  from map_event_idempotent [of ?E "\<lparr>me_window = 7\<rparr>" ex_state ?E'] m
  have a: "map_event ?E \<lparr>me_window = 7\<rparr> ex_state = ex_state" by blast
  from map_event_idempotent [of ?E "\<lparr>me_window = 9\<rparr>" ex_state ?E'] f
  have b: "map_event ?E' \<lparr>me_window = 9\<rparr> (map_event ?E \<lparr>me_window = 9\<rparr> ex_state)
             = map_event ?E \<lparr>me_window = 9\<rparr> ex_state" by blast
  from map_event_idempotent [of ?E "\<lparr>me_window = 9\<rparr>" ex_state ?E'] g d
  have c: "length (filter (\<lambda>c. win c = me_window \<lparr>me_window = 9\<rparr>)
             (clients (map_event ?E' \<lparr>me_window = 9\<rparr> (map_event ?E \<lparr>me_window = 9\<rparr> ex_state))))
           = 1" by blast
  from g d m f a b c show ?thesis by (simp del: One_nat_def)
qed

subsection \<open>C4: transient implies floating\<close>

text \<open>
  C4. For a map request that passes the guard of step 1 and whose window declares a
  transient-for target, whatever window-type atoms the window carries, a Client that the
  request leaves in the registry has its transient flag and its floating flag set; there is
  such a Client unless a DOCK or TOOLBAR atom ended the handler early. Every map request
  keeps the invariant that every Client with the transient flag has the floating flag.
\<close>

theorem transient_implies_floating:
  "(passes_guard E (me_window me) s
      \<and> get_wm_transient_for E (me_window me) = Some t \<and> t \<noteq> 0 \<longrightarrow>
        (\<forall>c. find_client_by_win (map_event E me s) (me_window me) = Some c \<longrightarrow>
              is_transient c \<and> is_floating c)
        \<and> (\<not> dock_hit E (me_window me) \<longrightarrow>
              find_client_by_win (map_event E me s) (me_window me) \<noteq> None))
   \<and> (transient_floating_inv s \<longrightarrow> transient_floating_inv (map_event E me s))"
proof (intro conjI impI allI)
  fix c
  assume a: "passes_guard E (me_window me) s
      \<and> get_wm_transient_for E (me_window me) = Some t \<and> t \<noteq> 0"
    and f: "find_client_by_win (map_event E me s) (me_window me) = Some c"
  from a have g: "passes_guard E (me_window me) s"
    and t: "transient_target E (me_window me) \<noteq> 0"
    by (simp_all add: transient_target_Some)
  have d: "\<not> dock_hit E (me_window me)"
    using map_event_find_dock [OF g] f by auto
  from map_event_managed(1) [OF g d] f t show "is_transient c" by auto
  from map_event_managed(1) [OF g d] f t show "is_floating c" by auto
next
  assume a: "passes_guard E (me_window me) s
      \<and> get_wm_transient_for E (me_window me) = Some t \<and> t \<noteq> 0"
    and d: "\<not> dock_hit E (me_window me)"
  from a have g: "passes_guard E (me_window me) s" by simp
  from map_event_managed(1) [OF g d]
  show "find_client_by_win (map_event E me s) (me_window me) \<noteq> None" by auto
next
  assume "transient_floating_inv s"
  then show "transient_floating_inv (map_event E me s)" by (rule map_event_inv)
qed

text \<open>
  Window 9 is transient for window 7 and its only type atom is none of the floating types;
  the Client is floating all the same.
\<close>

theorem transient_implies_floating_witness:
  "passes_guard (ex_env (Some [1]) (Some 7) None) 9 ex_state
   \<and> get_wm_transient_for (ex_env (Some [1]) (Some 7) None) 9 = Some 7
   \<and> \<not> dock_hit (ex_env (Some [1]) (Some 7) None) 9
   \<and> \<not> floating_hit (ex_env (Some [1]) (Some 7) None) 9
   \<and> find_client_by_win (map_event (ex_env (Some [1]) (Some 7) None) \<lparr>me_window = 9\<rparr> ex_state) 9
       = Some \<lparr>win = 9, is_floating = True, is_transient = True,
               rect = \<lparr>rect_x = 0, rect_y = 0, rect_width = 0, rect_height = 0\<rparr>\<rparr>
   \<and> transient_floating_inv ex_state
   \<and> transient_floating_inv (map_event (ex_env (Some [1]) (Some 7) None) \<lparr>me_window = 9\<rparr> ex_state)"
proof -
  let ?E = "ex_env (Some [1]) (Some 7) None"
  let ?me = "\<lparr>me_window = 9\<rparr>"
  have g: "passes_guard ?E (me_window ?me) ex_state"
    by (simp add: passes_guard_def ex_env_def find_client_by_win_def ex_state_def new_client_def)
  have t: "get_wm_transient_for ?E (me_window ?me) = Some 7" "(7 :: 32 word) \<noteq> 0"
    by (simp_all add: ex_env_def)
  have d: "\<not> dock_hit ?E (me_window ?me)" "\<not> floating_hit ?E (me_window ?me)"
    by (simp_all add: dock_hit_def floating_hit_def ex_env_def ex_ewmh_def is_dock_type_def
        is_floating_type_def)
  have i: "transient_floating_inv ex_state"
    by (simp add: transient_floating_inv_def ex_state_def new_client_def)
  have f: "find_client_by_win (map_event ?E ?me ex_state) 9
       = Some \<lparr>win = 9, is_floating = True, is_transient = True,
               rect = \<lparr>rect_x = 0, rect_y = 0, rect_width = 0, rect_height = 0\<rparr>\<rparr>"
    by (simp add: map_event_eval)
  from transient_implies_floating [of ?E ?me ex_state 7] g t d i f
  show ?thesis by simp
qed

subsection \<open>C5: docks and toolbars are not managed\<close>

text \<open>
  C5. For a map request that passes the guard of step 1 and whose window-type reply
  contains DOCK or TOOLBAR, the handler creates the Client, maps the window, removes the
  Client (with flag false) and returns: these are its only calls, the registry is as it was
  before, and no Client for the window is in it.
\<close>

theorem dock_toolbar_exclusion:
  assumes "passes_guard E (me_window me) s" and "dock_hit E (me_window me)"
  shows "find_client_by_win (map_event E me s) (me_window me) = None
         \<and> clients (map_event E me s) = clients s
         \<and> new_actions s (map_event E me s)
             = [Create_client (me_window me), Xcb_map_window (me_window me),
                Remove_client (me_window me) False]"
  using map_event_find_dock [OF assms] map_event_dock [OF assms] by simp

text \<open>A window whose types are DIALOG (108) and then TOOLBAR (102).\<close>

theorem dock_toolbar_exclusion_witness:
  "passes_guard (ex_env (Some [108, 102]) None None) (me_window \<lparr>me_window = 9\<rparr>) ex_state
   \<and> dock_hit (ex_env (Some [108, 102]) None None) (me_window \<lparr>me_window = 9\<rparr>)
   \<and> find_client_by_win (map_event (ex_env (Some [108, 102]) None None) \<lparr>me_window = 9\<rparr> ex_state) 9
       = None
   \<and> trace (map_event (ex_env (Some [108, 102]) None None) \<lparr>me_window = 9\<rparr> ex_state)
       = [Create_client 9, Xcb_map_window 9, Remove_client 9 False]"
proof -
  let ?E = "ex_env (Some [108, 102]) None None"
  have g: "passes_guard ?E (me_window \<lparr>me_window = 9\<rparr>) ex_state"
    by (simp add: passes_guard_def ex_env_def find_client_by_win_def ex_state_def new_client_def)
  have d: "dock_hit ?E (me_window \<lparr>me_window = 9\<rparr>)"
    by (simp add: dock_hit_def ex_env_def ex_ewmh_def is_dock_type_def)
  have t0: "trace ex_state = []" by (simp add: ex_state_def)
  show ?thesis
    using dock_toolbar_exclusion [OF g d] g d t0 by (simp add: new_actions_def)
qed

subsection \<open>C6: the values of a configure request\<close>

text \<open>
  C6. The configure handler passes the window and the mask of the request to
  \<^verbatim>\<open>xcb_configure_window\<close> together with an array that starts with the values of
  \<^const>\<open>configure_values\<close>, each converted to 32 bits, and is zero after them, and then
  re-runs layout. \<^const>\<open>configure_values\<close> lists the fields whose mask bit is set, in
  protocol order, with the width and height the minimum of the request and the monitor
  dimension minus \<open>border_px\<close>, y plus the bar height unless the bar is at the bottom, and
  x, border-width, sibling and stack-mode unmodified. There are at most seven values and
  each fits 32 bits.
\<close>

theorem configure_event_values:
  "new_actions s (configure_event E ce s)
     = [Xcb_configure_window (ce_window ce) (ce_value_mask ce)
          (map word_of_int (configure_values E (mon s) ce)
             @ replicate (7 - length (configure_values E (mon s) ce)) 0),
        Arrange_windows]
   \<and> length (configure_values E (mon s) ce) \<le> 7
   \<and> list_all fits_32 (configure_values E (mon s) ce)
   \<and> clients (configure_event E ce s) = clients s
   \<and> mon (configure_event E ce s) = mon s"
  by (simp add: configure_event_vals vals_of_def length_configure_values configure_values_range)

text \<open>
  A request for y = 5, width 3000 and height 100 on the 1920 by 1080 monitor with border 2
  and a bar of height 20 at the top.
\<close>

theorem configure_event_values_witness:
  "configure_values (ex_env None None None) (mon ex_state) ex_configure = [25, 1918, 100]
   \<and> list_all fits_32 [25, 1918, 100]
   \<and> new_actions ex_state (configure_event (ex_env None None None) ex_configure ex_state)
       = [Xcb_configure_window 7 14 [25, 1918, 100, 0, 0, 0, 0], Arrange_windows]"
proof -
  have v: "configure_values (ex_env None None None) (mon ex_state) ex_configure = [25, 1918, 100]"
    by (simp add: configure_values_def honoured_def ex_configure_def ex_env_def ex_conf_def
        ex_state_def ex_mon_def XCB_CONFIG_WINDOW_X_def XCB_CONFIG_WINDOW_Y_def
        XCB_CONFIG_WINDOW_WIDTH_def XCB_CONFIG_WINDOW_HEIGHT_def
        XCB_CONFIG_WINDOW_BORDER_WIDTH_def XCB_CONFIG_WINDOW_SIBLING_def
        XCB_CONFIG_WINDOW_STACK_MODE_def)
  have w: "ce_window ex_configure = 7" "ce_value_mask ex_configure = 14"
    by (simp_all add: ex_configure_def)
  from configure_event_values [of ex_state "ex_env None None None" ex_configure]
  show ?thesis unfolding v w by (simp add: numeral_eq_Suc)
qed

subsection \<open>C7: bounds of the desktop switch\<close>

text \<open>
  C7. A CURRENT-DESKTOP client message whose index is not below the workspace count of the
  focused monitor leaves the monitor as it is and makes no call that indexes the workspace
  list or changes the workspace. Whenever a client message makes such a call or changes the
  monitor, its type is CURRENT-DESKTOP, the index is strictly below the workspace count and
  the window is managed. For such a message (with the CURRENT-DESKTOP atom different from the
  three atoms tested before it) the handler looks the workspace up and switches to it.
\<close>

theorem current_desktop_bounds:
  "(cm_type cm = NET_CURRENT_DESKTOP (ewmh E) \<and> workspace_cnt (mon s) \<le> cm_data32_0 cm \<longrightarrow>
      mon (client_message_event E cm s) = mon s
      \<and> \<not> list_ex is_workspace_action (new_actions s (client_message_event E cm s)))
   \<and> (list_ex is_workspace_action (new_actions s (client_message_event E cm s))
        \<or> mon (client_message_event E cm s) \<noteq> mon s \<longrightarrow>
      cm_type cm = NET_CURRENT_DESKTOP (ewmh E)
      \<and> cm_data32_0 cm < workspace_cnt (mon s)
      \<and> find_client_by_win s (cm_window cm) \<noteq> None)
   \<and> (cm_type cm = NET_CURRENT_DESKTOP (ewmh E) \<and> cm_data32_0 cm < workspace_cnt (mon s)
        \<and> find_client_by_win s (cm_window cm) \<noteq> None
        \<and> cm_type cm \<notin> {NET_WM_STATE (ewmh E), NET_CLOSE_WINDOW (ewmh E),
                          NET_ACTIVE_WINDOW (ewmh E)} \<longrightarrow>
      new_actions s (client_message_event E cm s)
        = [Index_to_workspace (cm_data32_0 cm),
           Change_ws (index_to_workspace E (mon s) (cm_data32_0 cm))]
      \<and> ws (mon (client_message_event E cm s)) = index_to_workspace E (mon s) (cm_data32_0 cm))"
  by (auto simp: client_message_event_def Let_def split: option.splits)

text \<open>With four workspaces: index 4 changes nothing, index 3 switches.\<close>

theorem current_desktop_bounds_witness:
  "cm_type \<lparr>cm_window = 7, cm_type = 112, cm_data32_0 = 4, cm_data32_1 = 0, cm_data32_2 = 0\<rparr>
     = NET_CURRENT_DESKTOP (ewmh (ex_env None None None))
   \<and> workspace_cnt (mon ex_state) \<le> 4
   \<and> find_client_by_win ex_state 7 \<noteq> None
   \<and> mon (client_message_event (ex_env None None None)
        \<lparr>cm_window = 7, cm_type = 112, cm_data32_0 = 4, cm_data32_1 = 0, cm_data32_2 = 0\<rparr>
        ex_state) = mon ex_state
   \<and> \<not> list_ex is_workspace_action (new_actions ex_state
        (client_message_event (ex_env None None None)
          \<lparr>cm_window = 7, cm_type = 112, cm_data32_0 = 4, cm_data32_1 = 0, cm_data32_2 = 0\<rparr>
          ex_state))
   \<and> new_actions ex_state
        (client_message_event (ex_env None None None)
          \<lparr>cm_window = 7, cm_type = 112, cm_data32_0 = 3, cm_data32_1 = 0, cm_data32_2 = 0\<rparr>
          ex_state)
       = [Index_to_workspace 3, Change_ws \<lparr>bar_height = 20, layout = ZOOM\<rparr>]"
proof -
  let ?E = "ex_env None None None"
  let ?out = "\<lparr>cm_window = 7, cm_type = 112, cm_data32_0 = 4, cm_data32_1 = 0, cm_data32_2 = 0\<rparr>"
  let ?in = "\<lparr>cm_window = 7, cm_type = 112, cm_data32_0 = 3, cm_data32_1 = 0, cm_data32_2 = 0\<rparr>"
  have h1: "cm_type ?out = NET_CURRENT_DESKTOP (ewmh ?E)" "cm_type ?in = NET_CURRENT_DESKTOP (ewmh ?E)"
    by (simp_all add: ex_env_def ex_ewmh_def)
  have h2: "workspace_cnt (mon ex_state) \<le> cm_data32_0 ?out"
    "cm_data32_0 ?in < workspace_cnt (mon ex_state)"
    by (simp_all add: ex_state_def ex_mon_def)
  have h3: "find_client_by_win ex_state (cm_window ?in) \<noteq> None"
    by (simp add: find_client_by_win_def ex_state_def new_client_def)
  have h4: "cm_type ?in \<notin> {NET_WM_STATE (ewmh ?E), NET_CLOSE_WINDOW (ewmh ?E),
                            NET_ACTIVE_WINDOW (ewmh ?E)}"
    by (simp add: ex_env_def ex_ewmh_def)
  have i: "index_to_workspace ?E (mon ex_state) (cm_data32_0 ?in) = \<lparr>bar_height = 20, layout = ZOOM\<rparr>"
    by (simp add: ex_env_def)
  from current_desktop_bounds [of ?out ?E ex_state] h1(1) h2(1)
  have a: "mon (client_message_event ?E ?out ex_state) = mon ex_state
           \<and> \<not> list_ex is_workspace_action (new_actions ex_state (client_message_event ?E ?out ex_state))"
    by blast
  from current_desktop_bounds [of ?in ?E ex_state] h1(2) h2(2) h3 h4
  have b: "new_actions ex_state (client_message_event ?E ?in ex_state)
             = [Index_to_workspace (cm_data32_0 ?in),
                Change_ws (index_to_workspace ?E (mon ex_state) (cm_data32_0 ?in))]"
    by blast
  show ?thesis using a b h1 h2 h3 i by simp
qed

subsection \<open>C8: the geometry of a floating client\<close>

text \<open>
  C8. When a map request for an unmanaged window produces a floating Client and the
  geometry query returns a reply, the width of the Client is the reported width if that is
  greater than 1 and the configured spawn width otherwise, and likewise the height. With
  centering configured, \<open>x\<close> is \<open>mon.width/2 - width/2\<close> exactly, and \<open>y\<close> is the
  16-bit value of \<open>(mon.height - bar_height - height)/2\<close> with truncating division, which
  is that number exactly whenever it is at least \<open>-32768\<close>. Without centering, \<open>x\<close> and
  \<open>y\<close> are the reported position.
\<close>

theorem floating_spawn_geometry:
  assumes "find_client_by_win s (me_window me) = None"
    and "find_client_by_win (map_event E me s) (me_window me) = Some c"
    and "is_floating c"
    and "get_geometry E (me_window me) = Some geom"
  shows "rect_width (rect c)
           = (if 1 < uint (geom_width geom) then geom_width geom else float_spawn_width (conf E))
         \<and> rect_height (rect c)
           = (if 1 < uint (geom_height geom) then geom_height geom else float_spawn_height (conf E))
         \<and> (center_floating (conf E) \<longrightarrow>
               sint (rect_x (rect c))
                 = uint (rect_width (mon_rect (mon s))) sdiv 2 - uint (rect_width (rect c)) sdiv 2
               \<and> rect_y (rect c)
                 = word_of_int ((uint (rect_height (mon_rect (mon s)))
                                  - uint (bar_height (ws (mon s)))
                                  - uint (rect_height (rect c))) sdiv 2)
               \<and> (- 32768 \<le> (uint (rect_height (mon_rect (mon s)))
                                  - uint (bar_height (ws (mon s)))
                                  - uint (rect_height (rect c))) sdiv 2 \<longrightarrow>
                    sint (rect_y (rect c))
                      = (uint (rect_height (mon_rect (mon s))) - uint (bar_height (ws (mon s)))
                          - uint (rect_height (rect c))) sdiv 2))
         \<and> (\<not> center_floating (conf E) \<longrightarrow>
               rect_x (rect c) = geom_x geom \<and> rect_y (rect c) = geom_y geom)"
proof -
  from assms(1,2) have g: "passes_guard E (me_window me) s" and d: "\<not> dock_hit E (me_window me)"
    using map_event_managed_iff [OF assms(1), of E] by simp_all
  from map_event_managed(1) [OF g d] assms(2,3,4)
  have r: "rect c = floating_spawn_rect E (mon s) geom"
    by auto
  show ?thesis
    unfolding r
    by (simp add: floating_spawn_rect_def Let_def center_x_exact sint16_of_int center_y_upper)
qed

text \<open>
  A DIALOG window reporting width 1 and height 300 on the 1920 by 1080 monitor with a bar of
  height 20: width 500, \<open>x = 960 - 250\<close>, \<open>y = (1080 - 20 - 300)/2\<close>.
\<close>

theorem floating_spawn_geometry_witness:
  "find_client_by_win ex_state 9 = None
   \<and> find_client_by_win
        (map_event (ex_env (Some [108]) None (Some ex_geom)) \<lparr>me_window = 9\<rparr> ex_state) 9
       = Some \<lparr>win = 9, is_floating = True, is_transient = False,
               rect = \<lparr>rect_x = 710, rect_y = 380, rect_width = 500, rect_height = 300\<rparr>\<rparr>
   \<and> get_geometry (ex_env (Some [108]) None (Some ex_geom)) 9 = Some ex_geom
   \<and> center_floating (conf (ex_env (Some [108]) None (Some ex_geom)))
   \<and> (500 :: 16 word) = float_spawn_width (conf (ex_env (Some [108]) None (Some ex_geom)))
   \<and> sint (710 :: 16 word) = uint (rect_width (mon_rect (mon ex_state))) sdiv 2 - uint (500 :: 16 word) sdiv 2
   \<and> sint (380 :: 16 word)
       = (uint (rect_height (mon_rect (mon ex_state))) - uint (bar_height (ws (mon ex_state)))
           - uint (300 :: 16 word)) sdiv 2"
proof -
  let ?E = "ex_env (Some [108]) None (Some ex_geom)"
  let ?me = "\<lparr>me_window = 9\<rparr>"
  let ?c = "\<lparr>win = 9, is_floating = True, is_transient = False,
               rect = \<lparr>rect_x = 710, rect_y = 380, rect_width = 500, rect_height = 300\<rparr>\<rparr>"
  have h1: "find_client_by_win ex_state (me_window ?me) = None"
    by (simp add: find_client_by_win_def ex_state_def new_client_def)
  have h2: "find_client_by_win (map_event ?E ?me ex_state) (me_window ?me) = Some ?c"
    using ex_dialog_mapped by simp
  have h3: "is_floating ?c" by simp
  have h4: "get_geometry ?E (me_window ?me) = Some ex_geom" by (simp add: ex_env_def)
  have h5: "center_floating (conf ?E)" "float_spawn_width (conf ?E) = 500"
    "mon ex_state = ex_mon"
    by (simp_all add: ex_env_def ex_conf_def ex_state_def)
  have h6: "- 32768 \<le> (uint (rect_height (mon_rect (mon ex_state)))
              - uint (bar_height (ws (mon ex_state))) - uint (rect_height (rect ?c))) sdiv 2"
    by (simp add: ex_state_def ex_mon_def signed_divide_int_def)
  show ?thesis
    using floating_spawn_geometry [OF h1 h2 h3 h4] h1 h2 h4 h5(1,2) h6 by simp
qed

subsection \<open>C9: failed queries in map_event\<close>

text \<open>
  What the handler does after failed queries. A map request that passes the guard of
  step 1 and is not ended early by a DOCK or TOOLBAR atom (in particular whenever the
  window-type query fails) creates the Client, keeps it in the registry and goes on to
  re-layout, map, focus and button-grab, whichever of the three queries fail. A failed type
  query adds no floating flag (the Client is floating exactly if it is transient), a failed
  transient-for query leaves the Client non-transient, and after a failed geometry query the
  handler has written no geometry: the rectangle is the one the Client was created with.
\<close>

lemma map_event_after_failed_queries:
  assumes "passes_guard E (me_window me) s" and "\<not> dock_hit E (me_window me)"
  shows "\<exists>c. find_client_by_win (map_event E me s) (me_window me) = Some c
             \<and> clients (map_event E me s) = clients s @ [c]
             \<and> new_actions s (map_event E me s)
                 = [Create_client (me_window me), Arrange_windows, Xcb_map_window (me_window me),
                    Update_focused_client (Some (me_window me)), Grab_buttons (me_window me)]
             \<and> (get_wm_window_type E (me_window me) = None \<longrightarrow>
                   (is_floating c \<longleftrightarrow> is_transient c))
             \<and> (get_wm_transient_for E (me_window me) = None \<longrightarrow>
                   \<not> is_transient c \<and> (is_floating c \<longleftrightarrow> floating_hit E (me_window me)))
             \<and> (get_geometry E (me_window me) = None \<longrightarrow>
                   rect c = rect (new_client (me_window me)))"
proof -
  from map_event_managed(1) [OF assms] obtain c
    where c: "clients (map_event E me s) = clients s @ [c]"
      "find_client_by_win (map_event E me s) (me_window me) = Some c"
      "is_transient c \<longleftrightarrow> transient_target E (me_window me) \<noteq> 0"
      "is_floating c \<longleftrightarrow>
         floating_hit E (me_window me) \<or> transient_target E (me_window me) \<noteq> 0"
      "rect c = (case get_geometry E (me_window me) of
                   None \<Rightarrow> rect (new_client (me_window me))
                 | Some geom \<Rightarrow>
                     if is_floating c then floating_spawn_rect E (mon s) geom
                     else rect (new_client (me_window me)))"
    by blast
  have ty: "get_wm_window_type E (me_window me) = None \<longrightarrow> \<not> floating_hit E (me_window me)"
    by (simp add: floating_hit_def)
  have tr: "get_wm_transient_for E (me_window me) = None \<longrightarrow> transient_target E (me_window me) = 0"
    by (simp add: transient_target_def)
  have ge: "get_geometry E (me_window me) = None \<longrightarrow> rect c = rect (new_client (me_window me))"
    using c(5) by simp
  show ?thesis
    using c(1-4) ty tr ge map_event_managed(3) [OF assms]
    by (intro exI [of _ c]) simp
qed



subsection \<open>C10: the status refresh of the unmap handler\<close>

text \<open>
  C10. When the window of an unmap-notify event is not managed, the handler does nothing.
  When it is managed, the last call of the handler is the status refresh, made once, whether
  or not the client was removed; no call precedes it exactly when the reporting window is
  the root window.
\<close>

theorem unmap_event_status_refresh:
  "(find_client_by_win s (ue_window ue) = None \<longrightarrow> unmap_event E ue s = s)
   \<and> (find_client_by_win s (ue_window ue) \<noteq> None \<longrightarrow>
        (\<exists>pre. new_actions s (unmap_event E ue s) = pre @ [Howm_info]
               \<and> Howm_info \<notin> set pre
               \<and> (pre = [] \<longleftrightarrow> ue_event ue = screen_root E)))"
  by (auto simp: unmap_event_def Let_def)

text \<open>Window 8 is not managed; window 7 is, reported by the root window 1 and by itself.\<close>

theorem unmap_event_status_refresh_witness:
  "find_client_by_win ex_state 7 \<noteq> None
   \<and> find_client_by_win ex_state 8 = None
   \<and> unmap_event (ex_env None None None) \<lparr>ue_event = 8, ue_window = 8\<rparr> ex_state = ex_state
   \<and> last (trace (unmap_event (ex_env None None None) \<lparr>ue_event = 1, ue_window = 7\<rparr> ex_state))
       = Howm_info
   \<and> last (trace (unmap_event (ex_env None None None) \<lparr>ue_event = 7, ue_window = 7\<rparr> ex_state))
       = Howm_info"
proof -
  have h1: "find_client_by_win ex_state 7 \<noteq> None" and h2: "find_client_by_win ex_state 8 = None"
    by (simp_all add: find_client_by_win_def ex_state_def new_client_def)
  have t0: "trace ex_state = []" by (simp add: ex_state_def)
  show ?thesis
    using unmap_event_status_refresh
            [of ex_state "\<lparr>ue_event = 8, ue_window = 8\<rparr>" "ex_env None None None"]
      unmap_event_status_refresh
            [of ex_state "\<lparr>ue_event = 1, ue_window = 7\<rparr>" "ex_env None None None"]
      unmap_event_status_refresh
            [of ex_state "\<lparr>ue_event = 7, ue_window = 7\<rparr>" "ex_env None None None"]
      h1 h2 t0
    by (auto simp: new_actions_def)
qed

end
